theory Spec2Isabelle
  imports Main "HOL-Library.AList"
begin

section \<open>Values, errors and dictionaries\<close>

text \<open>
  Agent identities are strings.  A Python \<^verbatim>\<open>dict\<close> is an association list:
  \<^const>\<open>map_of\<close> reads a key and \<^const>\<open>AList.update\<close> writes one, keeping the position
  of a key that is already present and appending a new one, as a Python dictionary does.
  Observations, actions, rewards and parameter blobs are opaque payloads (type variables
  \<open>'o\<close>, \<open>'a\<close>, \<open>'r\<close>, \<open>'p\<close>): the code only copies them.
\<close>

type_synonym agent_id = string

text \<open>
  Exceptions are values.  \<open>PyException\<close> is Python's base class \<^verbatim>\<open>Exception\<close> raised with
  a message, as the code does; \<open>EmptyStoreError\<close> is the spec's name for sampling a store
  that holds no transition.
\<close>

datatype error =
    KeyError
  | IndexError
  | AttributeError
  | TypeError
  | ZeroDivisionError
  | FileNotFoundError
  | RuntimeError
  | EmptyStoreError
  | PyException string

text \<open>The Python class of a raised exception.\<close>

fun error_class :: "error \<Rightarrow> string" where
  "error_class KeyError = ''KeyError''"
| "error_class IndexError = ''IndexError''"
| "error_class AttributeError = ''AttributeError''"
| "error_class TypeError = ''TypeError''"
| "error_class ZeroDivisionError = ''ZeroDivisionError''"
| "error_class FileNotFoundError = ''FileNotFoundError''"
| "error_class RuntimeError = ''RuntimeError''"
| "error_class EmptyStoreError = ''EmptyStoreError''"
| "error_class (PyException msg) = ''Exception''"

text \<open>\<^verbatim>\<open>d[k]\<close>: a missing key raises \<^verbatim>\<open>KeyError\<close>.\<close>

definition lookup :: "('k \<times> 'v) list \<Rightarrow> 'k \<Rightarrow> error + 'v" where
  "lookup d k = (case map_of d k of None \<Rightarrow> Inl KeyError | Some v \<Rightarrow> Inr v)"

text \<open>\<^verbatim>\<open>xs[i]\<close> for a non-negative index: out of range raises \<^verbatim>\<open>IndexError\<close>.\<close>

definition row :: "'v list \<Rightarrow> nat \<Rightarrow> error + 'v" where
  "row xs i = (if i < length xs then Inr (xs ! i) else Inl IndexError)"

definition bnd :: "error + 'x \<Rightarrow> ('x \<Rightarrow> error + 'y) \<Rightarrow> error + 'y" where
  "bnd r k = (case r of Inl e \<Rightarrow> Inl e | Inr v \<Rightarrow> k v)"

text \<open>\<^verbatim>\<open>for x in xs: body\<close> over a state, stopping at the first exception.\<close>

fun for_each :: "('x \<Rightarrow> 's \<Rightarrow> error + 's) \<Rightarrow> 'x list \<Rightarrow> 's \<Rightarrow> error + 's" where
  "for_each body [] s = Inr s"
| "for_each body (x # xs) s =
     (case body x s of Inl e \<Rightarrow> Inl e | Inr s' \<Rightarrow> for_each body xs s')"

section \<open>Transition store\<close>

text \<open>
  Modelled from the spec: the class \<^verbatim>\<open>ReplayBuffer\<close> (module \<^verbatim>\<open>replay_buffer\<close>) is
  imported by both source files but its code is not part of the sources at hand.  The spec
  gives it six preallocated parallel arrays of length capacity, a write cursor starting
  at 0 and a \<open>full\<close> flag; \<open>add\<close> writes into the cursor slot, advances the cursor modulo
  the capacity and sets \<open>full\<close> once the cursor wraps; the size is the capacity when
  \<open>full\<close> and the cursor otherwise.  The field names are those that
  \<^verbatim>\<open>save_checkpoint\<close> reads.  The arrays store the negated termination flags.  A store
  has no slot to write when the cursor is not below the capacity (capacity 0): that case
  is an \<^const>\<open>IndexError\<close>.  The preallocated memory is uninitialised; its content is the
  parameter \<open>mem\<close>, one row per slot.
\<close>

record ('o, 'a, 'r) ReplayBuffer =
  capacity :: nat
  obses :: "'o list"
  next_obses :: "'o list"
  actions :: "'a list"
  rewards :: "'r list"
  not_dones :: "bool list"
  not_dones_no_max :: "bool list"
  idx :: nat
  full :: bool

type_synonym ('o, 'a, 'r) transition = "'o \<times> 'a \<times> 'r \<times> 'o \<times> bool \<times> bool"

definition ReplayBuffer_init ::
  "nat \<Rightarrow> (nat \<Rightarrow> ('o, 'a, 'r) transition) \<Rightarrow> ('o, 'a, 'r) ReplayBuffer" where
  "ReplayBuffer_init cap mem =
     \<lparr> capacity = cap,
       obses = map (\<lambda>i. fst (mem i)) [0..<cap],
       next_obses = map (\<lambda>i. fst (snd (snd (snd (mem i))))) [0..<cap],
       actions = map (\<lambda>i. fst (snd (mem i))) [0..<cap],
       rewards = map (\<lambda>i. fst (snd (snd (mem i)))) [0..<cap],
       not_dones = map (\<lambda>i. fst (snd (snd (snd (snd (mem i)))))) [0..<cap],
       not_dones_no_max = map (\<lambda>i. snd (snd (snd (snd (snd (mem i)))))) [0..<cap],
       idx = 0,
       full = False \<rparr>"

definition add ::
  "('o, 'a, 'r) ReplayBuffer \<Rightarrow> 'o \<Rightarrow> 'a \<Rightarrow> 'r \<Rightarrow> 'o \<Rightarrow> bool \<Rightarrow> bool
     \<Rightarrow> error + ('o, 'a, 'r) ReplayBuffer" where
  "add b obs action reward next_obs done done_no_max =
     (if idx b < capacity b then
        Inr (b\<lparr> obses := (obses b)[idx b := obs],
                actions := (actions b)[idx b := action],
                rewards := (rewards b)[idx b := reward],
                next_obses := (next_obses b)[idx b := next_obs],
                not_dones := (not_dones b)[idx b := \<not> done],
                not_dones_no_max := (not_dones_no_max b)[idx b := \<not> done_no_max],
                idx := (idx b + 1) mod capacity b,
                full := (full b \<or> (idx b + 1) mod capacity b = 0) \<rparr>)
      else Inl IndexError)"

definition size_buffer :: "('o, 'a, 'r) ReplayBuffer \<Rightarrow> nat" where
  "size_buffer b = (if full b then capacity b else idx b)"

section \<open>Agent adapter\<close>

text \<open>
  The learning agent is created by \<^verbatim>\<open>hydra.utils.instantiate\<close> and is an external
  collaborator.  What the controller touches is its \<^verbatim>\<open>training\<close> flag, its parameter
  state and its three optimizer states; its operations are the fields of \<open>agent_ops\<close>.
  An \<^verbatim>\<open>update\<close> consumes a sample of the store it is given and may raise (the spec:
  sampling an empty store fails with an \<open>EmptyStoreError\<close>), so its result is an error or
  the adapter after the update.
\<close>

record 'p Agent =
  training :: bool
  model_state :: 'p
  critic_optimizer :: 'p
  actor_optimizer :: 'p
  log_alpha_optimizer :: 'p

datatype logger = Logger agent_id

record ('p, 'o, 'a, 'r) agent_ops =
  agent_reset :: "'p Agent \<Rightarrow> 'p Agent"
  agent_act :: "'p Agent \<Rightarrow> 'o \<Rightarrow> bool \<Rightarrow> 'a"
  agent_update :: "'p Agent \<Rightarrow> ('o, 'a, 'r) ReplayBuffer \<Rightarrow> logger \<Rightarrow> int \<Rightarrow> error + 'p Agent"

text \<open>
  Modelled from the spec: the context managers \<^verbatim>\<open>utils.eval_mode\<close> and
  \<^verbatim>\<open>utils.train_mode\<close> (module \<^verbatim>\<open>utils\<close>, not part of the sources at hand).  The spec:
  the adapter is placed in evaluation (training) behaviour before the body runs and its
  prior behaviour is restored afterwards.
\<close>

definition eval_mode :: "'p Agent \<Rightarrow> ('p Agent \<Rightarrow> 'x) \<Rightarrow> 'x \<times> 'p Agent" where
  "eval_mode m body =
     (let prev = training m; m1 = m\<lparr>training := False\<rparr>; r = body m1
      in (r, m1\<lparr>training := prev\<rparr>))"

definition train_mode :: "'p Agent \<Rightarrow> ('p Agent \<Rightarrow> 'x) \<Rightarrow> 'x \<times> 'p Agent" where
  "train_mode m body =
     (let prev = training m; m1 = m\<lparr>training := True\<rparr>; r = body m1
      in (r, m1\<lparr>training := prev\<rparr>))"

section \<open>Individual controller\<close>

text \<open>
  \<^verbatim>\<open>IndividualMultiAgent\<close>: one adapter and one store per agent identity.  The field
  \<open>i_updates\<close> is a call log: it lists, in call order, the agent whose adapter received
  an \<^verbatim>\<open>update\<close> call and the logger passed along.
\<close>

record ('p, 'o, 'a, 'r) IndividualMultiAgent =
  i_agent_ids :: "agent_id list"
  i_mode :: string
  i_agents :: "(agent_id \<times> 'p Agent) list"
  i_replay_buffers :: "(agent_id \<times> ('o, 'a, 'r) ReplayBuffer) list"
  i_updates :: "(agent_id \<times> logger) list"

definition IndividualMultiAgent_init ::
  "agent_id list \<Rightarrow> nat \<Rightarrow> string \<Rightarrow> (agent_id \<Rightarrow> 'p Agent)
     \<Rightarrow> (agent_id \<Rightarrow> nat \<Rightarrow> ('o, 'a, 'r) transition) \<Rightarrow> ('p, 'o, 'a, 'r) IndividualMultiAgent" where
  "IndividualMultiAgent_init agent_ids replay_buffer_cap mode learning_model mem =
     \<lparr> i_agent_ids = agent_ids,
       i_mode = mode,
       i_agents = fold (\<lambda>agent d. AList.update agent (learning_model agent) d) agent_ids [],
       i_replay_buffers =
         fold (\<lambda>agent d. AList.update agent (ReplayBuffer_init replay_buffer_cap (mem agent)) d)
           agent_ids [],
       i_updates = [] \<rparr>"

definition i_reset ::
  "('p, 'o, 'a, 'r) agent_ops \<Rightarrow> ('p, 'o, 'a, 'r) IndividualMultiAgent
     \<Rightarrow> error + ('p, 'o, 'a, 'r) IndividualMultiAgent" where
  "i_reset ops c =
     for_each (\<lambda>agent c.
        (case lookup (i_agents c) agent of Inl e \<Rightarrow> Inl e
         | Inr m \<Rightarrow> Inr (c\<lparr>i_agents := AList.update agent (agent_reset ops m) (i_agents c)\<rparr>)))
       (i_agent_ids c) c"

text \<open>
  The three loops of \<^verbatim>\<open>act\<close>.  The loop state is the controller (the context manager
  writes the adapter's flag) and the \<^verbatim>\<open>actions\<close> dictionary under construction.
\<close>

definition i_act_eval ::
  "('p, 'o, 'a, 'r) agent_ops \<Rightarrow> (agent_id \<times> 'o) list \<Rightarrow> bool \<Rightarrow> agent_id
     \<Rightarrow> ('p, 'o, 'a, 'r) IndividualMultiAgent \<times> (agent_id \<times> 'a) list
     \<Rightarrow> error + ('p, 'o, 'a, 'r) IndividualMultiAgent \<times> (agent_id \<times> 'a) list" where
  "i_act_eval ops obs sample agent s =
     (case s of (c, acts) \<Rightarrow>
        (case lookup (i_agents c) agent of Inl e \<Rightarrow> Inl e
         | Inr m \<Rightarrow>
            (case lookup obs agent of Inl e \<Rightarrow> Inl e
             | Inr ob \<Rightarrow>
                 (case eval_mode m (\<lambda>m1. agent_act ops m1 ob sample) of (a, m') \<Rightarrow>
                    Inr (c\<lparr>i_agents := AList.update agent m' (i_agents c)\<rparr>,
                         AList.update agent a acts)))))"

definition i_act_train ::
  "('p, 'o, 'a, 'r) agent_ops \<Rightarrow> (agent_id \<times> 'o) list \<Rightarrow> bool \<Rightarrow> agent_id
     \<Rightarrow> ('p, 'o, 'a, 'r) IndividualMultiAgent \<times> (agent_id \<times> 'a) list
     \<Rightarrow> error + ('p, 'o, 'a, 'r) IndividualMultiAgent \<times> (agent_id \<times> 'a) list" where
  "i_act_train ops obs sample agent s =
     (case s of (c, acts) \<Rightarrow>
        (case lookup (i_agents c) agent of Inl e \<Rightarrow> Inl e
         | Inr m \<Rightarrow>
            (case lookup obs agent of Inl e \<Rightarrow> Inl e
             | Inr ob \<Rightarrow>
                 (case train_mode m (\<lambda>m1. agent_act ops m1 ob sample) of (a, m') \<Rightarrow>
                    Inr (c\<lparr>i_agents := AList.update agent m' (i_agents c)\<rparr>,
                         AList.update agent a acts)))))"

definition i_act_none ::
  "('p, 'o, 'a, 'r) agent_ops \<Rightarrow> (agent_id \<times> 'o) list \<Rightarrow> bool \<Rightarrow> agent_id
     \<Rightarrow> ('p, 'o, 'a, 'r) IndividualMultiAgent \<times> (agent_id \<times> 'a) list
     \<Rightarrow> error + ('p, 'o, 'a, 'r) IndividualMultiAgent \<times> (agent_id \<times> 'a) list" where
  "i_act_none ops obs sample agent s =
     (case s of (c, acts) \<Rightarrow>
        (case lookup (i_agents c) agent of Inl e \<Rightarrow> Inl e
         | Inr m \<Rightarrow>
            (case lookup obs agent of Inl e \<Rightarrow> Inl e
             | Inr ob \<Rightarrow> Inr (c, AList.update agent (agent_act ops m ob sample) acts))))"

text \<open>
  \<^verbatim>\<open>act(obs, sample, mode)\<close>; \<open>mode\<close> is \<open>None\<close> or a string.  The result is the
  \<^verbatim>\<open>actions\<close> dictionary together with the controller after the call.
\<close>

definition i_act ::
  "('p, 'o, 'a, 'r) agent_ops \<Rightarrow> ('p, 'o, 'a, 'r) IndividualMultiAgent \<Rightarrow> (agent_id \<times> 'o) list
     \<Rightarrow> bool \<Rightarrow> string option
     \<Rightarrow> error + ('p, 'o, 'a, 'r) IndividualMultiAgent \<times> (agent_id \<times> 'a) list" where
  "i_act ops c obs sample mode =
     (if mode = Some ''eval'' then for_each (i_act_eval ops obs sample) (i_agent_ids c) (c, [])
      else if mode = Some ''train'' then for_each (i_act_train ops obs sample) (i_agent_ids c) (c, [])
      else if mode = None then for_each (i_act_none ops obs sample) (i_agent_ids c) (c, [])
      else Inl (PyException ''ERROR: NO VALID ACTING MODE!''))"

text \<open>
  \<^verbatim>\<open>update(loggers, step)\<close> and \<^verbatim>\<open>add_to_buffer\<close>.  The termination flags are
  given by their truth value, which is all that \<open>add\<close> reads of them.
\<close>

definition i_update ::
  "('p, 'o, 'a, 'r) agent_ops \<Rightarrow> ('p, 'o, 'a, 'r) IndividualMultiAgent
     \<Rightarrow> (agent_id \<times> logger) list \<Rightarrow> int \<Rightarrow> error + ('p, 'o, 'a, 'r) IndividualMultiAgent" where
  "i_update ops c loggers step =
     for_each (\<lambda>agent c.
        bnd (lookup (i_agents c) agent) (\<lambda>m.
        bnd (lookup (i_replay_buffers c) agent) (\<lambda>b.
        bnd (lookup loggers agent) (\<lambda>lg.
        bnd (agent_update ops m b lg step) (\<lambda>m'.
          Inr (c\<lparr> i_agents := AList.update agent m' (i_agents c),
                  i_updates := i_updates c @ [(agent, lg)] \<rparr>))))))
       (i_agent_ids c) c"

definition i_add_one ::
  "(agent_id \<times> 'o) list \<Rightarrow> (agent_id \<times> 'a) list \<Rightarrow> (agent_id \<times> 'r) list
     \<Rightarrow> (agent_id \<times> 'o) list \<Rightarrow> bool \<Rightarrow> bool \<Rightarrow> agent_id
     \<Rightarrow> ('p, 'o, 'a, 'r) IndividualMultiAgent \<Rightarrow> error + ('p, 'o, 'a, 'r) IndividualMultiAgent" where
  "i_add_one obs acts rews next_obs done done_no_max agent c =
     bnd (lookup (i_replay_buffers c) agent) (\<lambda>b.
     bnd (lookup obs agent) (\<lambda>ob.
     bnd (lookup acts agent) (\<lambda>ac.
     bnd (lookup rews agent) (\<lambda>rw.
     bnd (lookup next_obs agent) (\<lambda>nob.
     bnd (add b ob ac rw nob done done_no_max) (\<lambda>b'.
       Inr (c\<lparr>i_replay_buffers := AList.update agent b' (i_replay_buffers c)\<rparr>)))))))"

definition i_add_to_buffer ::
  "('p, 'o, 'a, 'r) IndividualMultiAgent
     \<Rightarrow> (agent_id \<times> 'o) list \<Rightarrow> (agent_id \<times> 'a) list \<Rightarrow> (agent_id \<times> 'r) list
     \<Rightarrow> (agent_id \<times> 'o) list \<Rightarrow> bool \<Rightarrow> bool
     \<Rightarrow> error + ('p, 'o, 'a, 'r) IndividualMultiAgent" where
  "i_add_to_buffer c obs acts rews next_obs done done_no_max =
     for_each (i_add_one obs acts rews next_obs done done_no_max) (i_agent_ids c) c"

section \<open>Shared controller\<close>

text \<open>
  \<^verbatim>\<open>SharedMultiAgent\<close>: one adapter and one store for all agent identities.  The class
  has no attribute \<^verbatim>\<open>agents\<close>.  The field \<open>s_updates\<close> is the call log of the
  adapter's \<^verbatim>\<open>update\<close>: the logger of each call, in call order.
\<close>

record ('p, 'o, 'a, 'r) SharedMultiAgent =
  s_agent_ids :: "agent_id list"
  s_mode :: string
  s_agent :: "'p Agent"
  s_replay_buffer :: "('o, 'a, 'r) ReplayBuffer"
  s_updates :: "logger list"

definition SharedMultiAgent_init ::
  "agent_id list \<Rightarrow> nat \<Rightarrow> string \<Rightarrow> 'p Agent \<Rightarrow> (nat \<Rightarrow> ('o, 'a, 'r) transition)
     \<Rightarrow> ('p, 'o, 'a, 'r) SharedMultiAgent" where
  "SharedMultiAgent_init agent_ids replay_buffer_cap mode learning_model mem =
     \<lparr> s_agent_ids = agent_ids,
       s_mode = mode,
       s_agent = learning_model,
       s_replay_buffer = ReplayBuffer_init replay_buffer_cap mem,
       s_updates = [] \<rparr>"

definition s_reset ::
  "('p, 'o, 'a, 'r) agent_ops \<Rightarrow> ('p, 'o, 'a, 'r) SharedMultiAgent
     \<Rightarrow> ('p, 'o, 'a, 'r) SharedMultiAgent" where
  "s_reset ops c = c\<lparr>s_agent := agent_reset ops (s_agent c)\<rparr>"

definition s_act_eval ::
  "('p, 'o, 'a, 'r) agent_ops \<Rightarrow> (agent_id \<times> 'o) list \<Rightarrow> bool \<Rightarrow> agent_id
     \<Rightarrow> ('p, 'o, 'a, 'r) SharedMultiAgent \<times> (agent_id \<times> 'a) list
     \<Rightarrow> error + ('p, 'o, 'a, 'r) SharedMultiAgent \<times> (agent_id \<times> 'a) list" where
  "s_act_eval ops obs sample agent s =
     (case s of (c, acts) \<Rightarrow>
        bnd (lookup obs agent) (\<lambda>ob.
          (case eval_mode (s_agent c) (\<lambda>m1. agent_act ops m1 ob sample) of (a, m') \<Rightarrow>
             Inr (c\<lparr>s_agent := m'\<rparr>, AList.update agent a acts))))"

text \<open>
  The \<^verbatim>\<open>train\<close> branch enters \<^verbatim>\<open>utils.train_mode(self.agents[agent])\<close>: reading the
  attribute \<^verbatim>\<open>agents\<close>, which this class does not have, raises \<^verbatim>\<open>AttributeError\<close>
  before anything else of the loop body runs.
\<close>

definition s_act_train ::
  "('p, 'o, 'a, 'r) agent_ops \<Rightarrow> (agent_id \<times> 'o) list \<Rightarrow> bool \<Rightarrow> agent_id
     \<Rightarrow> ('p, 'o, 'a, 'r) SharedMultiAgent \<times> (agent_id \<times> 'a) list
     \<Rightarrow> error + ('p, 'o, 'a, 'r) SharedMultiAgent \<times> (agent_id \<times> 'a) list" where
  "s_act_train ops obs sample agent s = Inl AttributeError"

definition s_act_none ::
  "('p, 'o, 'a, 'r) agent_ops \<Rightarrow> (agent_id \<times> 'o) list \<Rightarrow> bool \<Rightarrow> agent_id
     \<Rightarrow> ('p, 'o, 'a, 'r) SharedMultiAgent \<times> (agent_id \<times> 'a) list
     \<Rightarrow> error + ('p, 'o, 'a, 'r) SharedMultiAgent \<times> (agent_id \<times> 'a) list" where
  "s_act_none ops obs sample agent s =
     (case s of (c, acts) \<Rightarrow>
        bnd (lookup obs agent) (\<lambda>ob.
          Inr (c, AList.update agent (agent_act ops (s_agent c) ob sample) acts)))"

definition s_act ::
  "('p, 'o, 'a, 'r) agent_ops \<Rightarrow> ('p, 'o, 'a, 'r) SharedMultiAgent \<Rightarrow> (agent_id \<times> 'o) list
     \<Rightarrow> bool \<Rightarrow> string option
     \<Rightarrow> error + ('p, 'o, 'a, 'r) SharedMultiAgent \<times> (agent_id \<times> 'a) list" where
  "s_act ops c obs sample mode =
     (if mode = Some ''eval'' then for_each (s_act_eval ops obs sample) (s_agent_ids c) (c, [])
      else if mode = Some ''train'' then for_each (s_act_train ops obs sample) (s_agent_ids c) (c, [])
      else if mode = None then for_each (s_act_none ops obs sample) (s_agent_ids c) (c, [])
      else Inl (PyException ''ERROR: NO VALID ACTING MODE!''))"

definition s_update_one ::
  "('p, 'o, 'a, 'r) agent_ops \<Rightarrow> (agent_id \<times> logger) list \<Rightarrow> int \<Rightarrow> agent_id
     \<Rightarrow> ('p, 'o, 'a, 'r) SharedMultiAgent \<Rightarrow> error + ('p, 'o, 'a, 'r) SharedMultiAgent" where
  "s_update_one ops loggers step agent c =
     bnd (lookup loggers agent) (\<lambda>lg.
     bnd (agent_update ops (s_agent c) (s_replay_buffer c) lg step) (\<lambda>m'.
       Inr (c\<lparr> s_agent := m', s_updates := s_updates c @ [lg] \<rparr>)))"

definition s_update ::
  "('p, 'o, 'a, 'r) agent_ops \<Rightarrow> ('p, 'o, 'a, 'r) SharedMultiAgent
     \<Rightarrow> (agent_id \<times> logger) list \<Rightarrow> int \<Rightarrow> error + ('p, 'o, 'a, 'r) SharedMultiAgent" where
  "s_update ops c loggers step = for_each (s_update_one ops loggers step) (s_agent_ids c) c"

definition s_add_one ::
  "(agent_id \<times> 'o) list \<Rightarrow> (agent_id \<times> 'a) list \<Rightarrow> (agent_id \<times> 'r) list
     \<Rightarrow> (agent_id \<times> 'o) list \<Rightarrow> bool \<Rightarrow> bool \<Rightarrow> agent_id
     \<Rightarrow> ('p, 'o, 'a, 'r) SharedMultiAgent \<Rightarrow> error + ('p, 'o, 'a, 'r) SharedMultiAgent" where
  "s_add_one obs acts rews next_obs done done_no_max agent c =
     bnd (lookup obs agent) (\<lambda>ob.
     bnd (lookup acts agent) (\<lambda>ac.
     bnd (lookup rews agent) (\<lambda>rw.
     bnd (lookup next_obs agent) (\<lambda>nob.
     bnd (add (s_replay_buffer c) ob ac rw nob done done_no_max) (\<lambda>b'.
       Inr (c\<lparr>s_replay_buffer := b'\<rparr>))))))"

definition s_add_to_buffer ::
  "('p, 'o, 'a, 'r) SharedMultiAgent
     \<Rightarrow> (agent_id \<times> 'o) list \<Rightarrow> (agent_id \<times> 'a) list \<Rightarrow> (agent_id \<times> 'r) list
     \<Rightarrow> (agent_id \<times> 'o) list \<Rightarrow> bool \<Rightarrow> bool
     \<Rightarrow> error + ('p, 'o, 'a, 'r) SharedMultiAgent" where
  "s_add_to_buffer c obs acts rews next_obs done done_no_max =
     for_each (s_add_one obs acts rews next_obs done done_no_max) (s_agent_ids c) c"

section \<open>Checkpoints\<close>

text \<open>
  A checkpoint directory holds the file \<^verbatim>\<open>checkpoint.pt\<close> (the step counter, the
  model states and the optimizer states) and the stores' arrays as \<^verbatim>\<open>.npz\<close> files.
  The \<open>dir\<close> argument of the two operations is the content of the directory of
  checkpoints: a dictionary from checkpoint names to checkpoint directories.
\<close>

record ('o, 'a, 'r) npz =
  z_obses :: "'o list"
  z_next_obses :: "'o list"
  z_actions :: "'a list"
  z_rewards :: "'r list"
  z_not_dones :: "bool list"
  z_not_dones_no_max :: "bool list"

record 'p optims =
  critic :: 'p
  actor :: 'p
  alpha :: 'p

text \<open>\<^verbatim>\<open>np.savez\<close> of the six arrays of a store.\<close>

definition savez :: "('o, 'a, 'r) ReplayBuffer \<Rightarrow> ('o, 'a, 'r) npz" where
  "savez b =
     \<lparr> z_obses = obses b,
       z_next_obses = next_obses b,
       z_actions = actions b,
       z_rewards = rewards b,
       z_not_dones = not_dones b,
       z_not_dones_no_max = not_dones_no_max b \<rparr>"

text \<open>\<^verbatim>\<open>'cp_{:d}'.format(step)\<close>: the decimal numeral of an integer.\<close>

fun decimal :: "nat \<Rightarrow> string" where
  "decimal n =
     (if n < 10 then [''0123456789'' ! n]
      else decimal (n div 10) @ [''0123456789'' ! (n mod 10)])"

declare decimal.simps [simp del]

definition checkpoint_name :: "int \<Rightarrow> string" where
  "checkpoint_name step =
     ''cp_'' @ (if step < 0 then CHR ''-'' # decimal (nat (- step)) else decimal (nat step))"

text \<open>Opening a file that does not exist.\<close>

definition open_file :: "(string \<times> 'f) list \<Rightarrow> string \<Rightarrow> error + 'f" where
  "open_file d name = (case map_of d name of None \<Rightarrow> Inl FileNotFoundError | Some f \<Rightarrow> Inr f)"

text \<open>
  One iteration of the replay loop of \<^verbatim>\<open>load_checkpoint\<close>: row \<open>i\<close> of each saved
  array is read and handed to \<open>add\<close>, the flags negated back.
\<close>

definition replay_row ::
  "('o, 'a, 'r) npz \<Rightarrow> nat \<Rightarrow> ('o, 'a, 'r) ReplayBuffer \<Rightarrow> error + ('o, 'a, 'r) ReplayBuffer" where
  "replay_row data i b =
     bnd (row (z_obses data) i) (\<lambda>obs.
     bnd (row (z_next_obses data) i) (\<lambda>next_obs.
     bnd (row (z_actions data) i) (\<lambda>action.
     bnd (row (z_rewards data) i) (\<lambda>reward.
     bnd (row (z_not_dones data) i) (\<lambda>not_done.
     bnd (row (z_not_dones_no_max data) i) (\<lambda>not_done_no_max.
       add b obs action reward next_obs (\<not> not_done) (\<not> not_done_no_max)))))))"

subsection \<open>Individual variant\<close>

record ('p, 'o, 'a, 'r) i_checkpoint =
  i_cp_step :: int
  i_cp_models :: "(agent_id \<times> 'p) list"
  i_cp_optims :: "(agent_id \<times> 'p optims) list"
  i_cp_replay_buffers :: "(string \<times> ('o, 'a, 'r) npz) list"

definition i_save_optims ::
  "('p, 'o, 'a, 'r) IndividualMultiAgent \<Rightarrow> agent_id \<Rightarrow> (agent_id \<times> 'p optims) list
     \<Rightarrow> error + (agent_id \<times> 'p optims) list" where
  "i_save_optims c agent d =
     bnd (lookup (i_agents c) agent) (\<lambda>m.
       Inr (AList.update agent
              \<lparr> critic = critic_optimizer m, actor = actor_optimizer m,
                alpha = log_alpha_optimizer m \<rparr> d))"

definition i_save_buffer ::
  "('p, 'o, 'a, 'r) IndividualMultiAgent \<Rightarrow> agent_id \<Rightarrow> (string \<times> ('o, 'a, 'r) npz) list
     \<Rightarrow> error + (string \<times> ('o, 'a, 'r) npz) list" where
  "i_save_buffer c agent files =
     bnd (lookup (i_replay_buffers c) agent) (\<lambda>b.
       Inr (AList.update (agent @ ''.npz'') (savez b) files))"

text \<open>
  \<^verbatim>\<open>save_checkpoint(dir, step)\<close>.  The directories are created with \<^verbatim>\<open>exist_ok\<close>, so
  array files already in the checkpoint directory stay unless they are overwritten.
\<close>

definition i_save_checkpoint ::
  "('p, 'o, 'a, 'r) IndividualMultiAgent \<Rightarrow> (string \<times> ('p, 'o, 'a, 'r) i_checkpoint) list \<Rightarrow> int
     \<Rightarrow> error + (string \<times> ('p, 'o, 'a, 'r) i_checkpoint) list" where
  "i_save_checkpoint c dir step =
     bnd (for_each (i_save_optims c) (i_agent_ids c) []) (\<lambda>opts.
     bnd (for_each (i_save_buffer c) (i_agent_ids c)
            (case map_of dir (checkpoint_name step) of None \<Rightarrow> []
             | Some old \<Rightarrow> i_cp_replay_buffers old)) (\<lambda>files.
       Inr (AList.update (checkpoint_name step)
              \<lparr> i_cp_step = step,
                i_cp_models = map (\<lambda>(agent, m). (agent, model_state m)) (i_agents c),
                i_cp_optims = opts,
                i_cp_replay_buffers = files \<rparr> dir)))"

text \<open>
  \<^verbatim>\<open>ModuleDict.load_state_dict\<close> (strict): the saved keys must be the keys of the
  module dictionary.
\<close>

definition i_load_state_dict ::
  "(agent_id \<times> 'p Agent) list \<Rightarrow> (agent_id \<times> 'p) list \<Rightarrow> error + (agent_id \<times> 'p Agent) list" where
  "i_load_state_dict agents models =
     (if list_all (\<lambda>(agent, m). map_of models agent \<noteq> None) agents
         \<and> list_all (\<lambda>(agent, p). map_of agents agent \<noteq> None) models
      then Inr (map (\<lambda>(agent, m).
                  (agent, (case map_of models agent of None \<Rightarrow> m
                           | Some p \<Rightarrow> m\<lparr>model_state := p\<rparr>))) agents)
      else Inl RuntimeError)"

definition i_load_optims ::
  "(agent_id \<times> 'p optims) list \<Rightarrow> agent_id \<Rightarrow> ('p, 'o, 'a, 'r) IndividualMultiAgent
     \<Rightarrow> error + ('p, 'o, 'a, 'r) IndividualMultiAgent" where
  "i_load_optims opts agent c =
     bnd (lookup (i_agents c) agent) (\<lambda>m.
     bnd (lookup opts agent) (\<lambda>os.
       Inr (c\<lparr>i_agents := AList.update agent
                 (m\<lparr> critic_optimizer := critic os, actor_optimizer := actor os,
                     log_alpha_optimizer := alpha os \<rparr>) (i_agents c)\<rparr>)))"

definition i_replay_one ::
  "('o, 'a, 'r) npz \<Rightarrow> agent_id \<Rightarrow> nat \<Rightarrow> ('p, 'o, 'a, 'r) IndividualMultiAgent
     \<Rightarrow> error + ('p, 'o, 'a, 'r) IndividualMultiAgent" where
  "i_replay_one data agent i c =
     bnd (row (z_obses data) i) (\<lambda>obs.
     bnd (row (z_next_obses data) i) (\<lambda>next_obs.
     bnd (row (z_actions data) i) (\<lambda>action.
     bnd (row (z_rewards data) i) (\<lambda>reward.
     bnd (row (z_not_dones data) i) (\<lambda>not_done.
     bnd (row (z_not_dones_no_max data) i) (\<lambda>not_done_no_max.
     bnd (lookup (i_replay_buffers c) agent) (\<lambda>b.
     bnd (add b obs action reward next_obs (\<not> not_done) (\<not> not_done_no_max)) (\<lambda>b'.
       Inr (c\<lparr>i_replay_buffers := AList.update agent b' (i_replay_buffers c)\<rparr>)))))))))"

definition i_load_buffer ::
  "(string \<times> ('o, 'a, 'r) npz) list \<Rightarrow> int \<Rightarrow> agent_id \<Rightarrow> ('p, 'o, 'a, 'r) IndividualMultiAgent
     \<Rightarrow> error + ('p, 'o, 'a, 'r) IndividualMultiAgent" where
  "i_load_buffer rep_dir step agent c =
     bnd (open_file rep_dir (agent @ ''.npz'')) (\<lambda>data.
       for_each (i_replay_one data agent) [0..<nat step] c)"

text \<open>
  \<^verbatim>\<open>load_checkpoint(dir, checkpoint, device)\<close>; the result is the controller after the
  call and the returned step.  The device only says where the loaded tensors are placed.
\<close>

definition i_load_checkpoint ::
  "('p, 'o, 'a, 'r) IndividualMultiAgent \<Rightarrow> (string \<times> ('p, 'o, 'a, 'r) i_checkpoint) list
     \<Rightarrow> string \<Rightarrow> string \<Rightarrow> error + ('p, 'o, 'a, 'r) IndividualMultiAgent \<times> int" where
  "i_load_checkpoint c dir checkpoint device =
     bnd (open_file dir checkpoint) (\<lambda>cp.
     bnd (i_load_state_dict (i_agents c) (i_cp_models cp)) (\<lambda>agents.
     bnd (for_each (i_load_optims (i_cp_optims cp)) (i_agent_ids c) (c\<lparr>i_agents := agents\<rparr>)) (\<lambda>c1.
     bnd (if i_mode c1 = ''train''
          then for_each (i_load_buffer (i_cp_replay_buffers cp) (i_cp_step cp)) (i_agent_ids c1) c1
          else Inr c1) (\<lambda>c2.
       Inr (c2, i_cp_step cp)))))"

subsection \<open>Shared variant\<close>

record ('p, 'o, 'a, 'r) s_checkpoint =
  s_cp_step :: int
  s_cp_models :: 'p
  s_cp_optims :: "'p optims"
  s_cp_replay_buffer :: "('o, 'a, 'r) npz option"

definition s_save_checkpoint ::
  "('p, 'o, 'a, 'r) SharedMultiAgent \<Rightarrow> (string \<times> ('p, 'o, 'a, 'r) s_checkpoint) list \<Rightarrow> int
     \<Rightarrow> (string \<times> ('p, 'o, 'a, 'r) s_checkpoint) list" where
  "s_save_checkpoint c dir step =
     AList.update (checkpoint_name step)
       \<lparr> s_cp_step = step,
         s_cp_models = model_state (s_agent c),
         s_cp_optims = \<lparr> critic = critic_optimizer (s_agent c), actor = actor_optimizer (s_agent c),
                         alpha = log_alpha_optimizer (s_agent c) \<rparr>,
         s_cp_replay_buffer = Some (savez (s_replay_buffer c)) \<rparr> dir"

definition s_replay_one ::
  "('o, 'a, 'r) npz \<Rightarrow> nat \<Rightarrow> ('p, 'o, 'a, 'r) SharedMultiAgent
     \<Rightarrow> error + ('p, 'o, 'a, 'r) SharedMultiAgent" where
  "s_replay_one data i c =
     bnd (row (z_obses data) i) (\<lambda>obs.
     bnd (row (z_next_obses data) i) (\<lambda>next_obs.
     bnd (row (z_actions data) i) (\<lambda>action.
     bnd (row (z_rewards data) i) (\<lambda>reward.
     bnd (row (z_not_dones data) i) (\<lambda>not_done.
     bnd (row (z_not_dones_no_max data) i) (\<lambda>not_done_no_max.
     bnd (add (s_replay_buffer c) obs action reward next_obs (\<not> not_done) (\<not> not_done_no_max))
       (\<lambda>b'. Inr (c\<lparr>s_replay_buffer := b'\<rparr>))))))))"

definition s_load_checkpoint ::
  "('p, 'o, 'a, 'r) SharedMultiAgent \<Rightarrow> (string \<times> ('p, 'o, 'a, 'r) s_checkpoint) list
     \<Rightarrow> string \<Rightarrow> string \<Rightarrow> error + ('p, 'o, 'a, 'r) SharedMultiAgent \<times> int" where
  "s_load_checkpoint c dir checkpoint device =
     bnd (open_file dir checkpoint) (\<lambda>cp.
       (let c1 = c\<lparr>s_agent := (s_agent c)
                    \<lparr> model_state := s_cp_models cp,
                      critic_optimizer := critic (s_cp_optims cp),
                      actor_optimizer := actor (s_cp_optims cp),
                      log_alpha_optimizer := alpha (s_cp_optims cp) \<rparr>\<rparr>
        in bnd (if s_mode c1 = ''train''
                then (case s_cp_replay_buffer cp of None \<Rightarrow> Inl FileNotFoundError
                      | Some data \<Rightarrow>
                          for_each (s_replay_one data)
                            [0..<nat (s_cp_step cp * int (length (s_agent_ids c1)))] c1)
                else Inr c1) (\<lambda>c2.
             Inr (c2, s_cp_step cp))))"

section \<open>Workspace construction\<close>

text \<open>
  The configuration object (\<^verbatim>\<open>cfg\<close>), reduced to the entries the bootstrap and the
  training loop read.
\<close>

record config =
  cfg_load_checkpoint :: bool
  cfg_save_checkpoint :: bool
  cfg_checkpoint_name :: string
  cfg_multi_agent_mode :: string
  cfg_mode :: string
  cfg_device :: string
  cfg_replay_buffer_capacity :: nat
  cfg_num_train_steps :: int
  cfg_num_seed_steps :: int
  cfg_eval_frequency :: int
  cfg_num_eval_episodes :: int

datatype ('p, 'o, 'a, 'r) multi_agent =
    Individual "('p, 'o, 'a, 'r) IndividualMultiAgent"
  | Shared "('p, 'o, 'a, 'r) SharedMultiAgent"

text \<open>
  The directory found at a path: the checkpoints it holds, in the layout of either
  variant.
\<close>

record ('p, 'o, 'a, 'r) checkpoints_dir =
  i_checkpoints :: "(string \<times> ('p, 'o, 'a, 'r) i_checkpoint) list"
  s_checkpoints :: "(string \<times> ('p, 'o, 'a, 'r) s_checkpoint) list"

text \<open>
  A Python call binds the positional arguments to the parameters of the method; with no
  default values, a call that passes fewer or more arguments than there are parameters
  raises \<^verbatim>\<open>TypeError\<close> before the body runs.
\<close>

definition bind_positional :: "string list \<Rightarrow> 'v list \<Rightarrow> error + (string \<times> 'v) list" where
  "bind_positional params args =
     (if length args = length params then Inr (zip params args) else Inl TypeError)"

text \<open>
  \<^verbatim>\<open>multi_agent.load_checkpoint(*args)\<close>: both classes declare
  \<^verbatim>\<open>def load_checkpoint(self, dir, checkpoint, device)\<close>.
\<close>

definition call_load_checkpoint ::
  "('p, 'o, 'a, 'r) multi_agent \<Rightarrow> (string \<Rightarrow> ('p, 'o, 'a, 'r) checkpoints_dir) \<Rightarrow> string list
     \<Rightarrow> error + ('p, 'o, 'a, 'r) multi_agent \<times> int" where
  "call_load_checkpoint ma fs args =
     bnd (bind_positional [''dir'', ''checkpoint'', ''device''] args) (\<lambda>bound.
     bnd (lookup bound ''dir'') (\<lambda>dir.
     bnd (lookup bound ''checkpoint'') (\<lambda>checkpoint.
     bnd (lookup bound ''device'') (\<lambda>device.
       (case ma of
          Individual c \<Rightarrow>
            bnd (i_load_checkpoint c (i_checkpoints (fs dir)) checkpoint device)
              (\<lambda>(c', step). Inr (Individual c', step))
        | Shared c \<Rightarrow>
            bnd (s_load_checkpoint c (s_checkpoints (fs dir)) checkpoint device)
              (\<lambda>(c', step). Inr (Shared c', step)))))))"

record ('p, 'o, 'a, 'r) Workspace =
  ws_work_dir :: string
  ws_agent_ids :: "agent_id list"
  ws_multi_agent :: "('p, 'o, 'a, 'r) multi_agent"
  ws_step :: int

text \<open>
  \<^verbatim>\<open>Workspace.__init__\<close>, from the choice of the controller on.  \<open>work_dir\<close> is the
  working directory after the \<^verbatim>\<open>chdir\<close>, \<open>agent_ids\<close> is \<^verbatim>\<open>env.agents\<close>,
  \<open>learning_model\<close> gives the freshly instantiated adapter of each agent (one adapter in
  the shared variant, for the first agent identity) and \<open>mem\<close> the content of the freshly
  allocated stores.
\<close>

definition Workspace_init ::
  "config \<Rightarrow> string \<Rightarrow> agent_id list \<Rightarrow> (string \<Rightarrow> ('p, 'o, 'a, 'r) checkpoints_dir)
     \<Rightarrow> (agent_id \<Rightarrow> 'p Agent) \<Rightarrow> (agent_id \<Rightarrow> nat \<Rightarrow> ('o, 'a, 'r) transition)
     \<Rightarrow> error + ('p, 'o, 'a, 'r) Workspace" where
  "Workspace_init cfg work_dir agent_ids fs learning_model mem =
     bnd (if cfg_multi_agent_mode cfg = ''individual'' then
            Inr (Individual (IndividualMultiAgent_init agent_ids (cfg_replay_buffer_capacity cfg)
                   (cfg_mode cfg) learning_model mem))
          else if cfg_multi_agent_mode cfg = ''shared'' then
            bnd (row agent_ids 0) (\<lambda>first.
              Inr (Shared (SharedMultiAgent_init agent_ids
                     (cfg_replay_buffer_capacity cfg * length agent_ids)
                     (cfg_mode cfg) (learning_model first) (mem first))))
          else Inl (PyException ''no valid multiagent_mode'')) (\<lambda>ma.
     bnd (if cfg_load_checkpoint cfg
          then call_load_checkpoint ma fs [work_dir @ ''/checkpoints'', cfg_checkpoint_name cfg]
          else Inr (ma, 0)) (\<lambda>(ma', step).
       Inr \<lparr> ws_work_dir = work_dir, ws_agent_ids = agent_ids, ws_multi_agent = ma',
             ws_step = step \<rparr>))"

section \<open>Training loop\<close>

text \<open>
  \<^verbatim>\<open>Workspace.train\<close> and \<^verbatim>\<open>Workspace.evaluate\<close> see the environment and the
  controller through their interfaces only.  Both are external to the loop: their joint
  state is a value of type \<open>'w\<close> and their operations are the fields of \<open>collab\<close>, each
  returning its result and the state after the call.  Every call on a collaborator is also
  recorded, in call order, with the arguments the loop passes.  The values handed to the
  logger (durations, the episode counter, reward sums) are floating-point bookkeeping
  that no branch reads; a logger call is recorded with its agent, key and step.
\<close>

datatype ('ob, 'a, 'rw) call =
    Sample agent_id
  | Act 'ob bool "string option"
  | Update int
  | EnvStep "(agent_id \<times> 'a) list"
  | AddToBuffer 'ob "(agent_id \<times> 'a) list" 'rw 'ob int int
  | EnvReset
  | Reset
  | Log agent_id string int
  | Dump agent_id int "bool option"
  | VideoInit bool
  | VideoRecord
  | VideoSave int
  | SaveCheckpoint int

record ('w, 'ob, 'a, 'rw) collab =
  env_agents :: "agent_id list"
  env_horizon :: int
  env_reset :: "'w \<Rightarrow> 'ob \<times> 'w"
  env_step :: "'w \<Rightarrow> (agent_id \<times> 'a) list \<Rightarrow> ('ob \<times> 'rw \<times> bool) \<times> 'w"
  space_sample :: "'w \<Rightarrow> agent_id \<Rightarrow> 'a \<times> 'w"
  ma_reset :: "'w \<Rightarrow> 'w"
  ma_act :: "'w \<Rightarrow> 'ob \<Rightarrow> bool \<Rightarrow> string option \<Rightarrow> (agent_id \<times> 'a) list \<times> 'w"
  ma_update :: "'w \<Rightarrow> int \<Rightarrow> 'w"
  ma_add_to_buffer ::
    "'w \<Rightarrow> 'ob \<Rightarrow> (agent_id \<times> 'a) list \<Rightarrow> 'rw \<Rightarrow> 'ob \<Rightarrow> int \<Rightarrow> int \<Rightarrow> 'w"
  ma_save_checkpoint :: "'w \<Rightarrow> int \<Rightarrow> 'w"

record ('w, 'ob, 'a, 'rw) run =
  world :: 'w
  step :: int
  calls :: "('ob, 'a, 'rw) call list"

subsection \<open>Evaluation\<close>

text \<open>
  The inner loop of \<^verbatim>\<open>evaluate\<close>, \<^verbatim>\<open>while not done\<close>, runs until the environment
  reports the end of the episode; it need not end, so its result is optional.
\<close>

partial_function (option) eval_episode ::
  "('w, 'ob, 'a, 'rw) collab \<Rightarrow> ('w, 'ob, 'a, 'rw) run \<Rightarrow> 'ob \<Rightarrow> ('w, 'ob, 'a, 'rw) run option" where
  "eval_episode k r obs =
     (case ma_act k (world r) obs False (Some ''eval'') of (acts, w1) \<Rightarrow>
        (case env_step k w1 acts of ((obs', rews, done), w2) \<Rightarrow>
           (if done
            then Some (r\<lparr> world := w2,
                          calls := calls r @ [Act obs False (Some ''eval''), EnvStep acts,
                                              VideoRecord] \<rparr>)
            else eval_episode k
                   (r\<lparr> world := w2,
                       calls := calls r @ [Act obs False (Some ''eval''), EnvStep acts,
                                           VideoRecord] \<rparr>) obs')))"

declare eval_episode.simps [code]

text \<open>\<^verbatim>\<open>for episode in range(num_eval_episodes)\<close>, over the list of episode numbers.\<close>

fun eval_episodes ::
  "('w, 'ob, 'a, 'rw) collab \<Rightarrow> nat list \<Rightarrow> ('w, 'ob, 'a, 'rw) run
     \<Rightarrow> ('w, 'ob, 'a, 'rw) run option" where
  "eval_episodes k [] r = Some r"
| "eval_episodes k (episode # rest) r =
     (case env_reset k (world r) of (obs, w1) \<Rightarrow>
        (case eval_episode k
                (r\<lparr> world := ma_reset k w1,
                    calls := calls r @ [EnvReset, Reset, VideoInit (episode = 0)] \<rparr>) obs of
           None \<Rightarrow> None
         | Some r2 \<Rightarrow> eval_episodes k rest (r2\<lparr>calls := calls r2 @ [VideoSave (step r2)]\<rparr>)))"

text \<open>
  After the episodes each agent's reward sum, initialised to the integer 0, is divided
  by \<^verbatim>\<open>num_eval_episodes\<close>: with at least one agent and no episode this raises
  \<^verbatim>\<open>ZeroDivisionError\<close>.
\<close>

definition evaluate ::
  "('w, 'ob, 'a, 'rw) collab \<Rightarrow> config \<Rightarrow> ('w, 'ob, 'a, 'rw) run
     \<Rightarrow> (error + ('w, 'ob, 'a, 'rw) run) option" where
  "evaluate k cfg r =
     (case eval_episodes k [0..<nat (cfg_num_eval_episodes cfg)] r of
        None \<Rightarrow> None
      | Some r1 \<Rightarrow>
          Some (if env_agents k \<noteq> [] \<and> cfg_num_eval_episodes cfg = 0 then Inl ZeroDivisionError
                else Inr (r1\<lparr>calls := calls r1 @
                       concat (map (\<lambda>agent. [Log agent ''eval/episode_reward'' (step r1),
                                              Dump agent (step r1) None]) (env_agents k))\<rparr>)))"

subsection \<open>Training\<close>

text \<open>The warm-up branch: \<^verbatim>\<open>actions[agent] = self.env.action_space[agent].sample()\<close>.\<close>

definition sample_actions ::
  "('w, 'ob, 'a, 'rw) collab \<Rightarrow> 'w \<Rightarrow> (agent_id \<times> 'a) list \<times> 'w" where
  "sample_actions k w =
     fold (\<lambda>agent (acts, w). (case space_sample k w agent of (a, w') \<Rightarrow>
             (AList.update agent a acts, w'))) (env_agents k) ([], w)"

text \<open>
  The body of the \<^verbatim>\<open>while\<close> loop up to the increment of the step counter.  The state
  of the loop is the run, the current observations and \<^verbatim>\<open>episode_step\<close>; the result
  also carries \<^verbatim>\<open>done\<close>, the number \<^verbatim>\<open>float(done)\<close>.
\<close>

definition train_step ::
  "('w, 'ob, 'a, 'rw) collab \<Rightarrow> config \<Rightarrow> ('w, 'ob, 'a, 'rw) run \<Rightarrow> 'ob \<Rightarrow> int
     \<Rightarrow> ('w, 'ob, 'a, 'rw) run \<times> 'ob \<times> int \<times> int" where
  "train_step k cfg r obs episode_step =
     (case (if step r < cfg_num_seed_steps cfg
            then (case sample_actions k (world r) of (acts, w) \<Rightarrow>
                    (acts, w, map Sample (env_agents k)))
            else (case ma_act k (world r) obs True (Some ''eval'') of (acts, w) \<Rightarrow>
                    (acts, w, [Act obs True (Some ''eval'')])))
      of (acts1, w1, calls1) \<Rightarrow>
        (case (if step r \<ge> cfg_num_seed_steps cfg
               then (ma_update k w1 (step r), [Update (step r)])
               else (w1, []))
         of (w2, calls2) \<Rightarrow>
           (case env_step k w2 acts1 of ((next_obs, rews, done_env), w3) \<Rightarrow>
              (let done = (if done_env then 1 else 0);
                   done_no_max = (if episode_step + 1 = env_horizon k then 0 else done)
               in (r\<lparr> world := ma_add_to_buffer k w3 obs acts1 rews next_obs done done_no_max,
                      step := step r + 1,
                      calls := calls r @ calls1 @ calls2 @
                        [EnvStep acts1,
                         AddToBuffer obs acts1 rews next_obs done done_no_max] \<rparr>,
                   next_obs, episode_step + 1, done)))))"

text \<open>
  The \<^verbatim>\<open>if done:\<close> block that closes an episode: the per-agent logging, the
  periodic evaluation (\<^verbatim>\<open>self.step % self.cfg.eval_frequency\<close> raises
  \<^verbatim>\<open>ZeroDivisionError\<close> for a frequency of 0), and the reset.
\<close>

definition log_episode ::
  "('w, 'ob, 'a, 'rw) collab \<Rightarrow> config \<Rightarrow> ('w, 'ob, 'a, 'rw) run \<Rightarrow> ('w, 'ob, 'a, 'rw) run" where
  "log_episode k cfg r =
     r\<lparr>calls := calls r @
          concat (map (\<lambda>agent. [Log agent ''train/duration'' (step r),
                                 Log agent ''train/episode'' (step r),
                                 Log agent ''train/episode_reward'' (step r),
                                 Dump agent (step r) (Some (step r > cfg_num_seed_steps cfg))])
                    (env_agents k))\<rparr>"

definition periodic_evaluation ::
  "('w, 'ob, 'a, 'rw) collab \<Rightarrow> config \<Rightarrow> ('w, 'ob, 'a, 'rw) run
     \<Rightarrow> (error + ('w, 'ob, 'a, 'rw) run) option" where
  "periodic_evaluation k cfg r =
     (if step r > 0 then
        (if cfg_eval_frequency cfg = 0 then Some (Inl ZeroDivisionError)
         else if step r mod cfg_eval_frequency cfg = 0 then
           evaluate k cfg
             (r\<lparr>calls := calls r @
                   map (\<lambda>agent. Log agent ''eval/episode'' (step r)) (env_agents k)\<rparr>)
         else Some (Inr r))
      else Some (Inr r))"

definition episode_end ::
  "('w, 'ob, 'a, 'rw) collab \<Rightarrow> config \<Rightarrow> ('w, 'ob, 'a, 'rw) run
     \<Rightarrow> (error + ('w, 'ob, 'a, 'rw) run \<times> 'ob \<times> int) option" where
  "episode_end k cfg r =
     (case periodic_evaluation k cfg (log_episode k cfg r) of
        None \<Rightarrow> None
      | Some (Inl e) \<Rightarrow> Some (Inl e)
      | Some (Inr r2) \<Rightarrow>
          (case env_reset k (world r2) of (obs, w1) \<Rightarrow>
             Some (Inr (r2\<lparr>world := ma_reset k w1, calls := calls r2 @ [EnvReset, Reset]\<rparr>,
                        obs, 0))))"

definition train_iter ::
  "('w, 'ob, 'a, 'rw) collab \<Rightarrow> config \<Rightarrow> ('w, 'ob, 'a, 'rw) run \<Rightarrow> 'ob \<Rightarrow> int
     \<Rightarrow> (error + ('w, 'ob, 'a, 'rw) run \<times> 'ob \<times> int) option" where
  "train_iter k cfg r obs episode_step =
     (case train_step k cfg r obs episode_step of (r1, obs1, episode_step1, done) \<Rightarrow>
        (if done \<noteq> 0 then episode_end k cfg r1 else Some (Inr (r1, obs1, episode_step1))))"

text \<open>\<^verbatim>\<open>while self.step < self.cfg.num_train_steps\<close>.\<close>

partial_function (option) train_loop ::
  "('w, 'ob, 'a, 'rw) collab \<Rightarrow> config \<Rightarrow> ('w, 'ob, 'a, 'rw) run \<Rightarrow> 'ob \<Rightarrow> int
     \<Rightarrow> (error + ('w, 'ob, 'a, 'rw) run \<times> 'ob \<times> int) option" where
  "train_loop k cfg r obs episode_step =
     (if step r < cfg_num_train_steps cfg then
        (case train_iter k cfg r obs episode_step of
           None \<Rightarrow> None
         | Some (Inl e) \<Rightarrow> Some (Inl e)
         | Some (Inr (r1, obs1, episode_step1)) \<Rightarrow> train_loop k cfg r1 obs1 episode_step1)
      else Some (Inr (r, obs, episode_step)))"

declare train_loop.simps [code]

text \<open>
  \<^verbatim>\<open>train\<close>: the episode counter starts as \<^verbatim>\<open>self.step / self.env.horizon\<close>, which
  raises \<^verbatim>\<open>ZeroDivisionError\<close> for a horizon of 0; after the loop the checkpoint is saved
  when the configuration asks for it.
\<close>

definition train ::
  "('w, 'ob, 'a, 'rw) collab \<Rightarrow> config \<Rightarrow> ('w, 'ob, 'a, 'rw) run
     \<Rightarrow> (error + ('w, 'ob, 'a, 'rw) run) option" where
  "train k cfg r =
     (if env_horizon k = 0 then Some (Inl ZeroDivisionError)
      else (case env_reset k (world r) of (obs, w1) \<Rightarrow>
        (case train_loop k cfg (r\<lparr>world := ma_reset k w1, calls := calls r @ [EnvReset, Reset]\<rparr>)
                obs 0 of
           None \<Rightarrow> None
         | Some (Inl e) \<Rightarrow> Some (Inl e)
         | Some (Inr (r1, obs1, episode_step1)) \<Rightarrow>
             Some (Inr (if cfg_save_checkpoint cfg
                        then r1\<lparr> world := ma_save_checkpoint k (world r1) (step r1),
                                calls := calls r1 @ [SaveCheckpoint (step r1)] \<rparr>
                        else r1)))))"

text \<open>A transition handed to \<open>add\<close>, and the classification of recorded calls.\<close>

definition add_transition ::
  "('o, 'a, 'r) transition \<Rightarrow> ('o, 'a, 'r) ReplayBuffer \<Rightarrow> error + ('o, 'a, 'r) ReplayBuffer" where
  "add_transition t b = (case t of (ob, ac, rw, nob, d, dnm) \<Rightarrow> add b ob ac rw nob d dnm)"

fun is_update :: "('ob, 'a, 'rw) call \<Rightarrow> bool" where
  "is_update (Update n) = True"
| "is_update c = False"

fun act_args :: "('ob, 'a, 'rw) call \<Rightarrow> (bool \<times> string option) list" where
  "act_args (Act ob sample mode) = [(sample, mode)]"
| "act_args c = []"

text \<open>
  The number of \<^verbatim>\<open>update\<close> calls in a list of recorded calls, and the \<^verbatim>\<open>sample\<close> and
  \<^verbatim>\<open>mode\<close> arguments of its \<^verbatim>\<open>act\<close> calls, in call order.
\<close>

definition updates_in :: "('ob, 'a, 'rw) call list \<Rightarrow> nat" where
  "updates_in cs = length (filter is_update cs)"

definition acts_in :: "('ob, 'a, 'rw) call list \<Rightarrow> (bool \<times> string option) list" where
  "acts_in cs = concat (map act_args cs)"

text \<open>
  The transition that \<^verbatim>\<open>add_to_buffer\<close> builds for one agent identity, and the two
  conditions under which its dictionary reads succeed: every agent identity is a key of
  the four dictionaries, and every agent identity has a store whose cursor is in range.
\<close>

definition transition_of ::
  "(agent_id \<times> 'o) list \<Rightarrow> (agent_id \<times> 'a) list \<Rightarrow> (agent_id \<times> 'r) list
     \<Rightarrow> (agent_id \<times> 'o) list \<Rightarrow> bool \<Rightarrow> bool \<Rightarrow> agent_id \<Rightarrow> ('o, 'a, 'r) transition" where
  "transition_of obs acts rews next_obs d dnm agent =
     (the (map_of obs agent), the (map_of acts agent), the (map_of rews agent),
      the (map_of next_obs agent), d, dnm)"

definition has_keys ::
  "(agent_id \<times> 'o) list \<Rightarrow> (agent_id \<times> 'a) list \<Rightarrow> (agent_id \<times> 'r) list
     \<Rightarrow> (agent_id \<times> 'o) list \<Rightarrow> agent_id list \<Rightarrow> bool" where
  "has_keys obs acts rews next_obs ids =
     list_all (\<lambda>agent. map_of obs agent \<noteq> None \<and> map_of acts agent \<noteq> None
                 \<and> map_of rews agent \<noteq> None \<and> map_of next_obs agent \<noteq> None) ids"

definition buffers_ready ::
  "(agent_id \<times> ('o, 'a, 'r) ReplayBuffer) list \<Rightarrow> agent_id list \<Rightarrow> bool" where
  "buffers_ready bufs ids =
     list_all (\<lambda>agent. case map_of bufs agent of None \<Rightarrow> False
                        | Some b \<Rightarrow> idx b < capacity b) ids"

text \<open>
  A list of recorded calls with no \<^verbatim>\<open>update\<close> call and whose \<^verbatim>\<open>act\<close> calls all pass
  \<^verbatim>\<open>sample=False, mode="eval"\<close>.
\<close>

definition eval_only :: "('ob, 'a, 'rw) call list \<Rightarrow> bool" where
  "eval_only xs = (updates_in xs = 0 \<and> set (acts_in xs) \<subseteq> {(False, Some ''eval'')})"

text \<open>
  Row \<open>i\<close> of a saved archive as the transition that the replay loop of
  \<^verbatim>\<open>load_checkpoint\<close> hands to \<open>add\<close>, and the condition that the six saved arrays hold
  at least \<open>n\<close> rows.
\<close>

definition saved_row :: "('o, 'a, 'r) npz \<Rightarrow> nat \<Rightarrow> ('o, 'a, 'r) transition" where
  "saved_row data i =
     (z_obses data ! i, z_actions data ! i, z_rewards data ! i, z_next_obses data ! i,
      \<not> z_not_dones data ! i, \<not> z_not_dones_no_max data ! i)"

definition has_rows :: "('o, 'a, 'r) npz \<Rightarrow> nat \<Rightarrow> bool" where
  "has_rows data n =
     (n \<le> length (z_obses data) \<and> n \<le> length (z_next_obses data)
      \<and> n \<le> length (z_actions data) \<and> n \<le> length (z_rewards data)
      \<and> n \<le> length (z_not_dones data) \<and> n \<le> length (z_not_dones_no_max data))"


section \<open>Concrete instances\<close>

text \<open>
  Small instances on which the theorems below are exercised: payloads are natural
  numbers, the adapter's action is the observation in evaluation behaviour and its
  successor in training behaviour, and an update fails on a store without transitions
  and counts up the parameter state otherwise.
\<close>

definition demo_agent :: "nat Agent" where
  "demo_agent =
     \<lparr> training = True, model_state = 0, critic_optimizer = 0, actor_optimizer = 0,
       log_alpha_optimizer = 0 \<rparr>"

definition demo_ops :: "(nat, nat, nat, nat) agent_ops" where
  "demo_ops =
     \<lparr> agent_reset = (\<lambda>m. m),
       agent_act = (\<lambda>m ob sample. if training m then Suc ob else ob),
       agent_update = (\<lambda>m b lg n. if size_buffer b = 0 then Inl EmptyStoreError
                                    else Inr (m\<lparr>model_state := Suc (model_state m)\<rparr>)) \<rparr>"

definition demo_mem :: "nat \<Rightarrow> (nat, nat, nat) transition" where
  "demo_mem i = (0, 0, 0, 0, False, False)"

definition demo_individual :: "(nat, nat, nat, nat) IndividualMultiAgent" where
  "demo_individual =
     IndividualMultiAgent_init [''a'', ''b''] 2 ''train'' (\<lambda>agent. demo_agent) (\<lambda>agent. demo_mem)"

definition demo_shared :: "(nat, nat, nat, nat) SharedMultiAgent" where
  "demo_shared = SharedMultiAgent_init [''a'', ''b''] 4 ''train'' demo_agent demo_mem"


definition demo_cfg :: config where
  "demo_cfg =
     \<lparr> cfg_load_checkpoint = True, cfg_save_checkpoint = True, cfg_checkpoint_name = ''cp_3'',
       cfg_multi_agent_mode = ''individual'', cfg_mode = ''train'', cfg_device = ''cpu'',
       cfg_replay_buffer_capacity = 2, cfg_num_train_steps = 4, cfg_num_seed_steps = 2,
       cfg_eval_frequency = 2, cfg_num_eval_episodes = 1 \<rparr>"

text \<open>
  An environment whose state counts the steps of the running episode and which ends
  every episode after two steps; a controller that answers the observation as every
  agent's action.
\<close>

definition demo_collab :: "(nat, nat, nat, nat) collab" where
  "demo_collab =
     \<lparr> env_agents = [''a'', ''b''],
       env_horizon = 2,
       env_reset = (\<lambda>w. (0, 0)),
       env_step = (\<lambda>w acts. ((Suc w, w, 2 \<le> Suc w), Suc w)),
       space_sample = (\<lambda>w agent. (7, w)),
       ma_reset = (\<lambda>w. w),
       ma_act = (\<lambda>w ob sample mode. ([(''a'', ob), (''b'', ob)], w)),
       ma_update = (\<lambda>w n. w),
       ma_add_to_buffer = (\<lambda>w ob acts rews nob d dnm. w),
       ma_save_checkpoint = (\<lambda>w n. w) \<rparr>"

definition demo_run :: "(nat, nat, nat, nat) run" where
  "demo_run = \<lparr> world = 0, step = 0, calls = [] \<rparr>"

text \<open>
  The individual controller after \<open>k\<close> calls of \<^verbatim>\<open>add_to_buffer\<close>, the \<open>j\<close>-th with the
  payloads \<open>j\<close> for agent \<^verbatim>\<open>a\<close> and \<open>100 + j\<close> for agent \<^verbatim>\<open>b\<close>, and the checkpoint
  directory after saving that controller at step \<open>k\<close> into an empty directory.  The
  shared controller likewise, after \<open>k\<close> calls for its two agents.
\<close>

fun demo_insertions ::
  "nat \<Rightarrow> (nat, nat, nat, nat) IndividualMultiAgent
     \<Rightarrow> error + (nat, nat, nat, nat) IndividualMultiAgent" where
  "demo_insertions 0 c = Inr c"
| "demo_insertions (Suc j) c =
     bnd (demo_insertions j c) (\<lambda>c'.
       i_add_to_buffer c' [(''a'', j), (''b'', 100 + j)] [(''a'', j), (''b'', 100 + j)]
         [(''a'', j), (''b'', 100 + j)] [(''a'', Suc j), (''b'', 101 + j)] False False)"

definition demo_saved ::
  "nat \<Rightarrow> error + (string \<times> (nat, nat, nat, nat) i_checkpoint) list" where
  "demo_saved k =
     bnd (demo_insertions k demo_individual) (\<lambda>c. i_save_checkpoint c [] (int k))"

fun demo_shared_insertions ::
  "nat \<Rightarrow> (nat, nat, nat, nat) SharedMultiAgent
     \<Rightarrow> error + (nat, nat, nat, nat) SharedMultiAgent" where
  "demo_shared_insertions 0 c = Inr c"
| "demo_shared_insertions (Suc j) c =
     bnd (demo_shared_insertions j c) (\<lambda>c'.
       s_add_to_buffer c' [(''a'', j), (''b'', 100 + j)] [(''a'', j), (''b'', 100 + j)]
         [(''a'', j), (''b'', 100 + j)] [(''a'', Suc j), (''b'', 101 + j)] False False)"

definition demo_shared_saved ::
  "nat \<Rightarrow> error + (string \<times> (nat, nat, nat, nat) s_checkpoint) list" where
  "demo_shared_saved k =
     bnd (demo_shared_insertions k demo_shared) (\<lambda>c. Inr (s_save_checkpoint c [] (int k)))"




text \<open>
  The calls that the training loop makes on this environment and controller with the
  configuration above (four steps, two of them warm-up, an evaluation every two steps).
\<close>

definition demo_trace :: "(nat, nat, nat) call list" where
  "demo_trace =
     [Sample ''a'', Sample ''b'', EnvStep [(''a'', 7), (''b'', 7)],
      AddToBuffer 0 [(''a'', 7), (''b'', 7)] 0 1 0 0,
      Sample ''a'', Sample ''b'', EnvStep [(''a'', 7), (''b'', 7)],
      AddToBuffer 1 [(''a'', 7), (''b'', 7)] 1 2 1 0,
      Log ''a'' ''train/duration'' 2, Log ''a'' ''train/episode'' 2,
      Log ''a'' ''train/episode_reward'' 2, Dump ''a'' 2 (Some False),
      Log ''b'' ''train/duration'' 2, Log ''b'' ''train/episode'' 2,
      Log ''b'' ''train/episode_reward'' 2, Dump ''b'' 2 (Some False),
      Log ''a'' ''eval/episode'' 2, Log ''b'' ''eval/episode'' 2,
      EnvReset, Reset, VideoInit True,
      Act 0 False (Some ''eval''), EnvStep [(''a'', 0), (''b'', 0)], VideoRecord,
      Act 1 False (Some ''eval''), EnvStep [(''a'', 1), (''b'', 1)], VideoRecord,
      VideoSave 2,
      Log ''a'' ''eval/episode_reward'' 2, Dump ''a'' 2 None,
      Log ''b'' ''eval/episode_reward'' 2, Dump ''b'' 2 None,
      EnvReset, Reset,
      Act 0 True (Some ''eval''), Update 2, EnvStep [(''a'', 0), (''b'', 0)],
      AddToBuffer 0 [(''a'', 0), (''b'', 0)] 0 1 0 0,
      Act 1 True (Some ''eval''), Update 3, EnvStep [(''a'', 1), (''b'', 1)],
      AddToBuffer 1 [(''a'', 1), (''b'', 1)] 1 2 1 0,
      Log ''a'' ''train/duration'' 4, Log ''a'' ''train/episode'' 4,
      Log ''a'' ''train/episode_reward'' 4, Dump ''a'' 4 (Some True),
      Log ''b'' ''train/duration'' 4, Log ''b'' ''train/episode'' 4,
      Log ''b'' ''train/episode_reward'' 4, Dump ''b'' 4 (Some True),
      Log ''a'' ''eval/episode'' 4, Log ''b'' ''eval/episode'' 4,
      EnvReset, Reset, VideoInit True,
      Act 0 False (Some ''eval''), EnvStep [(''a'', 0), (''b'', 0)], VideoRecord,
      Act 1 False (Some ''eval''), EnvStep [(''a'', 1), (''b'', 1)], VideoRecord,
      VideoSave 4,
      Log ''a'' ''eval/episode_reward'' 4, Dump ''a'' 4 None,
      Log ''b'' ''eval/episode_reward'' 4, Dump ''b'' 4 None,
      EnvReset, Reset]"

section \<open>Basic facts\<close>

lemma lookup_Some: "map_of d k = Some v \<Longrightarrow> lookup d k = Inr v"
  by (simp add: lookup_def)

lemma lookup_None: "map_of d k = None \<Longrightarrow> lookup d k = Inl KeyError"
  by (simp add: lookup_def)

lemma bnd_Inr: "bnd (Inr v) f = f v"
  by (simp add: bnd_def)

lemma bnd_Inl: "bnd (Inl e) f = Inl e"
  by (simp add: bnd_def)

lemma for_each_append:
  "for_each body (xs @ ys) s = bnd (for_each body xs s) (for_each body ys)"
  by (induction xs arbitrary: s) (simp_all add: bnd_def split: sum.splits)

section \<open>Acting\<close>

text \<open>
  C5.  In both controller variants, \<^verbatim>\<open>act\<close> called with a mode that is neither
  \<^verbatim>\<open>None\<close>, nor \<^verbatim>\<open>"train"\<close>, nor \<^verbatim>\<open>"eval"\<close> raises Python's base \<^verbatim>\<open>Exception\<close> with
  the message \<^verbatim>\<open>ERROR: NO VALID ACTING MODE!\<close>, for every controller state, observation
  map and sampling flag; the call yields no actions.  The exception has no class of its
  own: its class is \<^verbatim>\<open>Exception\<close>.
\<close>

theorem act_invalid_mode_fails:
  assumes "mode \<noteq> None" and "mode \<noteq> Some ''train''" and "mode \<noteq> Some ''eval''"
  shows "i_act ops c obs sample mode = Inl (PyException ''ERROR: NO VALID ACTING MODE!'')
       \<and> s_act ops c' obs sample mode = Inl (PyException ''ERROR: NO VALID ACTING MODE!'')
       \<and> error_class (PyException ''ERROR: NO VALID ACTING MODE!'') = ''Exception''"
  using assms by (auto simp: i_act_def s_act_def)

theorem act_invalid_mode_fails_witness:
  "Some ''test'' \<noteq> (None :: string option) \<and> Some ''test'' \<noteq> Some ''train''
   \<and> Some ''test'' \<noteq> Some ''eval''
   \<and> i_act demo_ops demo_individual [(''a'', 0), (''b'', 1)] True (Some ''test'')
       = Inl (PyException ''ERROR: NO VALID ACTING MODE!'')
   \<and> s_act demo_ops demo_shared [(''a'', 0), (''b'', 1)] True (Some ''test'')
       = Inl (PyException ''ERROR: NO VALID ACTING MODE!'')"
  using act_invalid_mode_fails [of "Some ''test''" demo_ops demo_individual
      "[(''a'', 0), (''b'', 1)]" True demo_shared]
  by simp

text \<open>
  The error of an invalid acting mode is not of a distinct kind.  With the mode
  \<^verbatim>\<open>"test"\<close> both variants raise an exception whose class is \<^verbatim>\<open>Exception\<close>, not an
  \<^verbatim>\<open>InvalidModeError\<close>, and that is also the class of the exception that the constructor
  of \<^verbatim>\<open>Workspace\<close> raises for an unknown multi-agent mode.
\<close>

theorem act_invalid_mode_error_not_distinct:
  "i_act demo_ops demo_individual [(''a'', 0), (''b'', 1)] True (Some ''test'')
       = Inl (PyException ''ERROR: NO VALID ACTING MODE!'')
   \<and> s_act demo_ops demo_shared [(''a'', 0), (''b'', 1)] True (Some ''test'')
       = Inl (PyException ''ERROR: NO VALID ACTING MODE!'')
   \<and> error_class (PyException ''ERROR: NO VALID ACTING MODE!'') \<noteq> ''InvalidModeError''
   \<and> Workspace_init (demo_cfg\<lparr>cfg_multi_agent_mode := ''other''\<rparr>) ''run'' [''a'', ''b'']
        (\<lambda>path. \<lparr>i_checkpoints = [], s_checkpoints = []\<rparr>) (\<lambda>agent. demo_agent)
        (\<lambda>agent. demo_mem) = Inl (PyException ''no valid multiagent_mode'')
   \<and> error_class (PyException ''ERROR: NO VALID ACTING MODE!'')
       = error_class (PyException ''no valid multiagent_mode'')"
  by (simp add: i_act_def s_act_def Workspace_init_def demo_cfg_def bnd_def)

text \<open>
  C4.  In the shared variant, \<^verbatim>\<open>act\<close> with \<^verbatim>\<open>mode="train"\<close> and at least one agent
  identity raises \<^verbatim>\<open>AttributeError\<close> (the loop body reads \<^verbatim>\<open>self.agents\<close>, which the
  class does not define): no action map is returned.
\<close>

theorem s_act_train_raises:
  "s_act ops (c\<lparr>s_agent_ids := agent # rest\<rparr>) obs sample (Some ''train'') = Inl AttributeError"
  by (simp add: s_act_def s_act_train_def)

section \<open>Resuming through the bootstrap\<close>

text \<open>
  C3.  With \<^verbatim>\<open>load_checkpoint\<close> enabled the constructor of \<^verbatim>\<open>Workspace\<close> never returns a
  workspace.  It calls the controller's \<^verbatim>\<open>load_checkpoint\<close> with two arguments, the
  method takes three in both variants, and the call raises \<^verbatim>\<open>TypeError\<close> whatever the
  checkpoint directory holds; when even the controller cannot be built, the constructor
  has failed before.
\<close>

theorem resume_never_completes:
  assumes "cfg_load_checkpoint cfg"
  shows "Workspace_init cfg work_dir agent_ids fs learning_model mem =
           Inl (if cfg_multi_agent_mode cfg = ''individual'' then TypeError
                else if cfg_multi_agent_mode cfg = ''shared''
                  then (if agent_ids = [] then IndexError else TypeError)
                else PyException ''no valid multiagent_mode'')
       \<and> call_load_checkpoint (Individual ci) fs [dir, checkpoint] = Inl TypeError
       \<and> call_load_checkpoint (Shared cs) fs [dir, checkpoint] = Inl TypeError"
  using assms
  by (simp add: Workspace_init_def call_load_checkpoint_def bind_positional_def bnd_def row_def)

theorem resume_never_completes_witness:
  "cfg_load_checkpoint demo_cfg
   \<and> Workspace_init demo_cfg ''run'' [''a'', ''b'']
        (\<lambda>path. \<lparr>i_checkpoints = [], s_checkpoints = []\<rparr>) (\<lambda>agent. demo_agent)
        (\<lambda>agent. demo_mem) = Inl TypeError
   \<and> call_load_checkpoint (Individual demo_individual)
        (\<lambda>path. \<lparr>i_checkpoints = [], s_checkpoints = []\<rparr>) [''run/checkpoints'', ''cp_3'']
        = Inl TypeError
   \<and> call_load_checkpoint (Shared demo_shared)
        (\<lambda>path. \<lparr>i_checkpoints = [], s_checkpoints = []\<rparr>) [''run/checkpoints'', ''cp_3'']
        = Inl TypeError"
  using resume_never_completes [of demo_cfg "''run''" "[''a'', ''b'']"
      "\<lambda>path. \<lparr>i_checkpoints = [], s_checkpoints = []\<rparr>" "\<lambda>agent. demo_agent"
      "\<lambda>agent. demo_mem" demo_individual "''run/checkpoints''" "''cp_3''" demo_shared]
  by (simp add: demo_cfg_def)

section \<open>Training loop\<close>

text \<open>The loop body up to the step increment, once its three collaborator calls are named.\<close>

lemma train_step_unfold:
  assumes a: "(if step r < cfg_num_seed_steps cfg
            then (case sample_actions k (world r) of (acts, w) \<Rightarrow>
                    (acts, w, map Sample (env_agents k)))
            else (case ma_act k (world r) obs True (Some ''eval'') of (acts, w) \<Rightarrow>
                    (acts, w, [Act obs True (Some ''eval'')]))) = (acts1, w1, calls1)"
    and b: "(if step r \<ge> cfg_num_seed_steps cfg
               then (ma_update k w1 (step r), [Update (step r)])
               else (w1, [])) = (w2, calls2)"
    and c: "env_step k w2 acts1 = ((next_obs, rews, done_env), w3)"
  shows "train_step k cfg r obs episode_step =
     (r\<lparr> world := ma_add_to_buffer k w3 obs acts1 rews next_obs (if done_env then 1 else 0)
                   (if episode_step + 1 = env_horizon k then 0 else if done_env then 1 else 0),
         step := step r + 1,
         calls := calls r @ calls1 @ calls2 @
            [EnvStep acts1,
             AddToBuffer obs acts1 rews next_obs (if done_env then 1 else 0)
               (if episode_step + 1 = env_horizon k then 0 else if done_env then 1 else 0)] \<rparr>,
      next_obs, episode_step + 1, if done_env then 1 else 0)"
  by (simp only: train_step_def a b c prod.case Let_def)

text \<open>
  C6.  In every training-loop step the last call of the step's first part is
  \<^verbatim>\<open>add_to_buffer\<close>, and the \<^verbatim>\<open>done_no_max\<close> it receives is 0 when the episode length
  (the step counter of the episode after this step) equals the horizon, and \<^verbatim>\<open>done\<close>
  otherwise.  So when the environment reports the end of the episode exactly at the
  horizon \<^verbatim>\<open>done_no_max\<close> is 0, and when it reports it strictly before the horizon
  \<^verbatim>\<open>done_no_max\<close> equals \<^verbatim>\<open>done\<close>, which is 1.
\<close>

theorem done_no_max_at_horizon:
  fixes k :: "('w, 'ob, 'a, 'rw) collab"
  assumes "train_step k cfg r obs episode_step = (r1, obs1, es1, done)"
  shows "\<exists>acts rews done_env w w' dnm.
      env_step k w acts = ((obs1, rews, done_env), w')
    \<and> done = (if done_env then 1 else 0)
    \<and> es1 = episode_step + 1
    \<and> last (calls r1) = AddToBuffer obs acts rews obs1 done dnm
    \<and> world r1 = ma_add_to_buffer k w' obs acts rews obs1 done dnm
    \<and> dnm = (if episode_step + 1 = env_horizon k then 0 else done)
    \<and> (done_env \<and> episode_step + 1 = env_horizon k \<longrightarrow> dnm = 0)
    \<and> (done_env \<and> episode_step + 1 < env_horizon k \<longrightarrow> dnm = done \<and> dnm = 1)"
proof -
  obtain acts1 w1 and calls1 :: "('ob, 'a, 'rw) call list" where a: "(if step r < cfg_num_seed_steps cfg
            then (case sample_actions k (world r) of (acts, w) \<Rightarrow>
                    (acts, w, map Sample (env_agents k)))
            else (case ma_act k (world r) obs True (Some ''eval'') of (acts, w) \<Rightarrow>
                    (acts, w, [Act obs True (Some ''eval'')]))) = (acts1, w1, calls1)"
    by (metis prod_cases3)
  obtain w2 and calls2 :: "('ob, 'a, 'rw) call list" where b: "(if step r \<ge> cfg_num_seed_steps cfg
               then (ma_update k w1 (step r), [Update (step r)])
               else (w1, [])) = (w2, calls2)"
    by (metis surj_pair)
  obtain next_obs rews done_env w3 where c: "env_step k w2 acts1 = ((next_obs, rews, done_env), w3)"
    by (metis prod_cases3 surj_pair)
  note u = train_step_unfold [OF a b c, where episode_step = episode_step]
  have r1: "r1 = r\<lparr> world := ma_add_to_buffer k w3 obs acts1 rews next_obs (if done_env then 1 else 0)
                   (if episode_step + 1 = env_horizon k then 0 else if done_env then 1 else 0),
         step := step r + 1,
         calls := calls r @ calls1 @ calls2 @
            [EnvStep acts1,
             AddToBuffer obs acts1 rews next_obs (if done_env then 1 else 0)
               (if episode_step + 1 = env_horizon k then 0 else if done_env then 1 else 0)] \<rparr>"
    and o: "obs1 = next_obs" and e: "es1 = episode_step + 1" and d: "done = (if done_env then 1 else 0)"
    using assms unfolding u by auto
  show ?thesis
    apply (rule exI [of _ acts1], rule exI [of _ rews], rule exI [of _ done_env],
        rule exI [of _ w2], rule exI [of _ w3],
        rule exI [of _ "if episode_step + 1 = env_horizon k then 0 else done"])
    using c by (simp add: r1 o e d)
qed

theorem done_no_max_at_horizon_witness:
  "train_step demo_collab demo_cfg (demo_run\<lparr>world := 1, step := 3\<rparr>) 1 1 =
    (\<lparr> world = 2, step = 4,
        calls = [Act 1 True (Some ''eval''), Update 3, EnvStep [(''a'', 1), (''b'', 1)],
                 AddToBuffer 1 [(''a'', 1), (''b'', 1)] 1 2 1 0] \<rparr>, 2, 2, 1)
   \<and> train_step (demo_collab\<lparr>env_horizon := 5\<rparr>) demo_cfg (demo_run\<lparr>world := 1, step := 3\<rparr>) 1 1 =
    (\<lparr> world = 2, step = 4,
        calls = [Act 1 True (Some ''eval''), Update 3, EnvStep [(''a'', 1), (''b'', 1)],
                 AddToBuffer 1 [(''a'', 1), (''b'', 1)] 1 2 1 1] \<rparr>, 2, 2, 1)
   \<and> (\<exists>acts rews done_env w w' dnm.
        env_step demo_collab w acts = ((2, rews, done_env), w')
      \<and> done_env \<and> 1 + 1 = env_horizon demo_collab \<and> dnm = 0
      \<and> last [Act 1 True (Some ''eval''), Update 3, EnvStep [(''a'', 1), (''b'', 1)],
                 AddToBuffer 1 [(''a'', 1), (''b'', 1)] 1 2 1 0]
          = AddToBuffer (1::nat) acts rews 2 1 dnm)
   \<and> (\<exists>acts rews done_env w w' dnm.
        env_step (demo_collab\<lparr>env_horizon := 5\<rparr>) w acts = ((2, rews, done_env), w')
      \<and> done_env \<and> 1 + 1 < env_horizon (demo_collab\<lparr>env_horizon := 5\<rparr>) \<and> dnm = 1
      \<and> last [Act 1 True (Some ''eval''), Update 3, EnvStep [(''a'', 1), (''b'', 1)],
                 AddToBuffer 1 [(''a'', 1), (''b'', 1)] 1 2 1 1]
          = AddToBuffer (1::nat) acts rews 2 1 dnm)"
proof -
  have h1: "train_step demo_collab demo_cfg (demo_run\<lparr>world := 1, step := 3\<rparr>) 1 1 =
    (\<lparr> world = 2, step = 4,
        calls = [Act 1 True (Some ''eval''), Update 3, EnvStep [(''a'', 1), (''b'', 1)],
                 AddToBuffer 1 [(''a'', 1), (''b'', 1)] 1 2 1 0] \<rparr>, 2, 2, 1)"
    by (simp add: train_step_def demo_collab_def demo_cfg_def demo_run_def)
  have h2: "train_step (demo_collab\<lparr>env_horizon := 5\<rparr>) demo_cfg (demo_run\<lparr>world := 1, step := 3\<rparr>) 1 1 =
    (\<lparr> world = 2, step = 4,
        calls = [Act 1 True (Some ''eval''), Update 3, EnvStep [(''a'', 1), (''b'', 1)],
                 AddToBuffer 1 [(''a'', 1), (''b'', 1)] 1 2 1 1] \<rparr>, 2, 2, 1)"
    by (simp add: train_step_def demo_collab_def demo_cfg_def demo_run_def)
  have e1: "env_horizon demo_collab = 2" and e2: "env_horizon (demo_collab\<lparr>env_horizon := 5\<rparr>) = 5"
    by (simp_all add: demo_collab_def)
  from done_no_max_at_horizon [OF h1] obtain acts rews done_env w w' dnm where
    a: "env_step demo_collab w acts = ((2, rews, done_env), w')"
      "(1::int) = (if done_env then 1 else 0)"
      "last (calls \<lparr> world = 2::nat, step = 4,
        calls = [Act 1 True (Some ''eval''), Update 3, EnvStep [(''a'', 1), (''b'', 1)],
                 AddToBuffer 1 [(''a'', 1), (''b'', 1)] 1 2 1 0] \<rparr>) = AddToBuffer (1::nat) acts rews 2 1 dnm"
      "done_env \<and> (1::int) + 1 = env_horizon demo_collab \<longrightarrow> dnm = 0"
    by blast
  from a(2) have d1: done_env by (simp split: if_splits)
  from done_no_max_at_horizon [OF h2] obtain acts' rews' done_env' v v' dnm' where
    b: "env_step (demo_collab\<lparr>env_horizon := 5\<rparr>) v acts' = ((2, rews', done_env'), v')"
      "(1::int) = (if done_env' then 1 else 0)"
      "last (calls \<lparr> world = 2::nat, step = 4,
        calls = [Act 1 True (Some ''eval''), Update 3, EnvStep [(''a'', 1), (''b'', 1)],
                 AddToBuffer 1 [(''a'', 1), (''b'', 1)] 1 2 1 1] \<rparr>) = AddToBuffer (1::nat) acts' rews' 2 1 dnm'"
      "done_env' \<and> (1::int) + 1 < env_horizon (demo_collab\<lparr>env_horizon := 5\<rparr>) \<longrightarrow> dnm' = 1 \<and> dnm' = 1"
    by blast
  from b(2) have d2: done_env' by (simp split: if_splits)
  have c1: "\<exists>acts rews done_env w w' dnm.
        env_step demo_collab w acts = ((2, rews, done_env), w')
      \<and> done_env \<and> 1 + 1 = env_horizon demo_collab \<and> dnm = 0
      \<and> last [Act 1 True (Some ''eval''), Update 3, EnvStep [(''a'', 1), (''b'', 1)],
                 AddToBuffer 1 [(''a'', 1), (''b'', 1)] 1 2 1 0]
          = AddToBuffer (1::nat) acts rews 2 1 dnm"
    apply (rule exI [of _ acts], rule exI [of _ rews], rule exI [of _ done_env],
        rule exI [of _ w], rule exI [of _ w'], rule exI [of _ dnm])
    using a d1 e1 by auto
  have c2: "\<exists>acts rews done_env w w' dnm.
        env_step (demo_collab\<lparr>env_horizon := 5\<rparr>) w acts = ((2, rews, done_env), w')
      \<and> done_env \<and> 1 + 1 < env_horizon (demo_collab\<lparr>env_horizon := 5\<rparr>) \<and> dnm = 1
      \<and> last [Act 1 True (Some ''eval''), Update 3, EnvStep [(''a'', 1), (''b'', 1)],
                 AddToBuffer 1 [(''a'', 1), (''b'', 1)] 1 2 1 1]
          = AddToBuffer (1::nat) acts rews 2 1 dnm"
    apply (rule exI [of _ acts'], rule exI [of _ rews'], rule exI [of _ done_env'],
        rule exI [of _ v], rule exI [of _ v'], rule exI [of _ dnm'])
    using b d2 e2 by auto
  show ?thesis by (simp only: h1 h2 c1 c2 simp_thms)
qed


section \<open>Updates\<close>

lemma for_each_s_update_one:
  assumes "list_all (\<lambda>agent. map_of loggers agent \<noteq> None) ids"
  shows "for_each (s_update_one ops loggers n) ids c =
     bnd (for_each (\<lambda>agent m. agent_update ops m (s_replay_buffer c)
                      (the (map_of loggers agent)) n) ids (s_agent c))
       (\<lambda>m'. Inr (c\<lparr> s_agent := m',
                       s_updates := s_updates c @ map (\<lambda>agent. the (map_of loggers agent)) ids \<rparr>))"
  using assms
proof (induction ids arbitrary: c)
  case Nil
  then show ?case by (simp add: bnd_def)
next
  case (Cons a ids)
  from Cons.prems obtain lg where lg: "map_of loggers a = Some lg" by auto
  from Cons.prems have rest: "list_all (\<lambda>agent. map_of loggers agent \<noteq> None) ids" by simp
  show ?case
  proof (cases "agent_update ops (s_agent c) (s_replay_buffer c) lg n")
    case (Inl e)
    then show ?thesis
      by (simp add: s_update_one_def lookup_Some [OF lg] bnd_def lg)
  next
    case (Inr m1)
    then have one: "s_update_one ops loggers n a c =
        Inr (c\<lparr> s_agent := m1, s_updates := s_updates c @ [lg] \<rparr>)"
      by (simp add: s_update_one_def lookup_Some [OF lg] bnd_def)
    show ?thesis
      by (simp add: one Cons.IH [OF rest] lg Inr bnd_def split: sum.splits)
  qed
qed


text \<open>
  When an \<^verbatim>\<open>update\<close> of the adapter raises, the loop of the controller's \<^verbatim>\<open>update\<close>
  stops there and the exception leaves the call.
\<close>

lemma shared_update_aborts:
  assumes "list_all (\<lambda>agent. map_of loggers agent \<noteq> None) (s_agent_ids c)"
    and "for_each (\<lambda>agent m. agent_update ops m (s_replay_buffer c)
                     (the (map_of loggers agent)) n) (s_agent_ids c) (s_agent c) = Inl e"
  shows "s_update ops c loggers n = Inl e"
  by (simp add: s_update_def for_each_s_update_one [OF assms(1)] assms(2) bnd_def)

lemma shared_update_empty_store:
  "s_update demo_ops demo_shared [(''a'', Logger ''a''), (''b'', Logger ''b'')] 5
     = Inl EmptyStoreError"
  by (simp add: s_update_def s_update_one_def demo_shared_def SharedMultiAgent_init_def
      demo_ops_def lookup_def bnd_def size_buffer_def ReplayBuffer_init_def)



section \<open>Writing transitions\<close>

lemma add_ok:
  assumes "idx b < capacity b"
  shows "\<exists>b'. add b ob ac rw nob d dnm = Inr b' \<and> idx b' < capacity b' \<and> capacity b' = capacity b"
  using assms by (simp add: add_def)

lemma add_Inr_inv:
  assumes "add b ob ac rw nob d dnm = Inr b'"
  shows "idx b' < capacity b' \<and> capacity b' = capacity b"
  using assms by (auto simp: add_def split: if_splits)

lemma has_keys_Cons:
  "has_keys obs acts rews next_obs (a # ids) =
     (map_of obs a \<noteq> None \<and> map_of acts a \<noteq> None \<and> map_of rews a \<noteq> None
       \<and> map_of next_obs a \<noteq> None \<and> has_keys obs acts rews next_obs ids)"
  by (auto simp: has_keys_def)

lemma s_add_one_eq:
  assumes "map_of obs a \<noteq> None" "map_of acts a \<noteq> None" "map_of rews a \<noteq> None"
    "map_of next_obs a \<noteq> None"
  shows "s_add_one obs acts rews next_obs d dnm a c =
     bnd (add_transition (transition_of obs acts rews next_obs d dnm a) (s_replay_buffer c))
       (\<lambda>b'. Inr (c\<lparr>s_replay_buffer := b'\<rparr>))"
  using assms
  by (auto simp: s_add_one_def add_transition_def transition_of_def lookup_def bnd_def)

lemma for_each_s_add_one:
  assumes "has_keys obs acts rews next_obs ids"
  shows "for_each (s_add_one obs acts rews next_obs d dnm) ids c =
     bnd (for_each add_transition (map (transition_of obs acts rews next_obs d dnm) ids)
            (s_replay_buffer c))
       (\<lambda>b'. Inr (c\<lparr>s_replay_buffer := b'\<rparr>))"
  using assms
proof (induction ids arbitrary: c)
  case Nil
  then show ?case by (simp add: bnd_def)
next
  case (Cons a ids)
  then have k: "map_of obs a \<noteq> None" "map_of acts a \<noteq> None" "map_of rews a \<noteq> None"
    "map_of next_obs a \<noteq> None" and rest: "has_keys obs acts rews next_obs ids"
    by (simp_all add: has_keys_Cons)
  show ?case
    by (cases "add_transition (transition_of obs acts rews next_obs d dnm a) (s_replay_buffer c)")
      (simp_all add: s_add_one_eq [OF k] bnd_def Cons.IH [OF rest])
qed

lemma for_each_add_transition_ok:
  assumes "idx b < capacity b"
  shows "\<exists>b'. for_each add_transition ts b = Inr b' \<and> idx b' < capacity b'
           \<and> capacity b' = capacity b"
  using assms
proof (induction ts arbitrary: b)
  case Nil
  then show ?case by simp
next
  case (Cons t ts)
  obtain ob ac rw nob d dnm where t: "t = (ob, ac, rw, nob, d, dnm)" by (cases t) auto
  from add_ok [OF Cons.prems] obtain b1 where
    b1: "add b ob ac rw nob d dnm = Inr b1" "idx b1 < capacity b1" "capacity b1 = capacity b"
    by blast
  from Cons.IH [OF b1(2)] b1 show ?case by (simp add: t add_transition_def)
qed


lemma buffers_ready_Cons:
  "buffers_ready bufs (a # ids) =
     ((\<exists>b. map_of bufs a = Some b \<and> idx b < capacity b) \<and> buffers_ready bufs ids)"
  by (auto simp: buffers_ready_def split: option.splits)

lemma buffers_ready_update:
  "a \<notin> set ids \<Longrightarrow> buffers_ready (AList.update a b bufs) ids = buffers_ready bufs ids"
  by (induction ids) (auto simp: buffers_ready_def update_conv')

lemma i_add_one_eq:
  assumes "map_of obs a \<noteq> None" "map_of acts a \<noteq> None" "map_of rews a \<noteq> None"
    "map_of next_obs a \<noteq> None" "map_of (i_replay_buffers c) a = Some b"
  shows "i_add_one obs acts rews next_obs d dnm a c =
     bnd (add_transition (transition_of obs acts rews next_obs d dnm a) b)
       (\<lambda>b'. Inr (c\<lparr>i_replay_buffers := AList.update a b' (i_replay_buffers c)\<rparr>))"
  using assms
  by (auto simp: i_add_one_def add_transition_def transition_of_def lookup_def bnd_def)

lemma for_each_i_add_one:
  assumes "distinct ids" "has_keys obs acts rews next_obs ids"
    "buffers_ready (i_replay_buffers c) ids"
  shows "\<exists>c'. for_each (i_add_one obs acts rews next_obs d dnm) ids c = Inr c'
      \<and> i_agent_ids c' = i_agent_ids c \<and> i_agents c' = i_agents c \<and> i_mode c' = i_mode c
      \<and> i_updates c' = i_updates c
      \<and> (\<forall>agent. agent \<notin> set ids \<longrightarrow>
            map_of (i_replay_buffers c') agent = map_of (i_replay_buffers c) agent)
      \<and> (\<forall>agent \<in> set ids. \<exists>b b'. map_of (i_replay_buffers c) agent = Some b
            \<and> add_transition (transition_of obs acts rews next_obs d dnm agent) b = Inr b'
            \<and> map_of (i_replay_buffers c') agent = Some b')"
  using assms
proof (induction ids arbitrary: c)
  case Nil
  then show ?case by simp
next
  case (Cons a ids)
  from Cons.prems have k: "map_of obs a \<noteq> None" "map_of acts a \<noteq> None" "map_of rews a \<noteq> None"
    "map_of next_obs a \<noteq> None" and rest: "has_keys obs acts rews next_obs ids"
    and d: "distinct ids" "a \<notin> set ids"
    by (simp_all add: has_keys_Cons)
  from Cons.prems obtain b where b: "map_of (i_replay_buffers c) a = Some b" "idx b < capacity b"
    and br: "buffers_ready (i_replay_buffers c) ids"
    by (auto simp: buffers_ready_Cons)
  obtain ob ac rw nob where t: "transition_of obs acts rews next_obs d dnm a = (ob, ac, rw, nob, d, dnm)"
    by (simp add: transition_of_def)
  from add_ok [OF b(2)] obtain b1 where b1: "add b ob ac rw nob d dnm = Inr b1" by blast
  then have at: "add_transition (transition_of obs acts rews next_obs d dnm a) b = Inr b1"
    by (simp add: t add_transition_def)
  define c1 where "c1 = c\<lparr>i_replay_buffers := AList.update a b1 (i_replay_buffers c)\<rparr>"
  have one: "i_add_one obs acts rews next_obs d dnm a c = Inr c1"
    by (simp add: i_add_one_eq [OF k b(1)] at bnd_def c1_def)
  have br1: "buffers_ready (i_replay_buffers c1) ids"
    using br d(2) by (simp add: c1_def buffers_ready_update)
  from Cons.IH [OF d(1) rest br1] obtain c' where
    c': "for_each (i_add_one obs acts rews next_obs d dnm) ids c1 = Inr c'"
      "i_agent_ids c' = i_agent_ids c1" "i_agents c' = i_agents c1" "i_mode c' = i_mode c1"
      "i_updates c' = i_updates c1"
      "\<forall>agent. agent \<notin> set ids \<longrightarrow>
            map_of (i_replay_buffers c') agent = map_of (i_replay_buffers c1) agent"
      "\<forall>agent \<in> set ids. \<exists>b b'. map_of (i_replay_buffers c1) agent = Some b
            \<and> add_transition (transition_of obs acts rews next_obs d dnm agent) b = Inr b'
            \<and> map_of (i_replay_buffers c') agent = Some b'"
    by blast
  have m1: "map_of (i_replay_buffers c1) = (map_of (i_replay_buffers c))(a \<mapsto> b1)"
    by (simp add: c1_def update_conv')
  have "for_each (i_add_one obs acts rews next_obs d dnm) (a # ids) c = Inr c'"
    by (simp add: one c'(1))
  moreover have "i_agent_ids c' = i_agent_ids c" "i_agents c' = i_agents c" "i_mode c' = i_mode c"
    "i_updates c' = i_updates c"
    using c'(2-5) by (simp_all add: c1_def)
  moreover have "\<forall>agent. agent \<notin> set (a # ids) \<longrightarrow>
            map_of (i_replay_buffers c') agent = map_of (i_replay_buffers c) agent"
    using c'(6) by (simp add: m1)
  moreover have "\<forall>agent \<in> set (a # ids). \<exists>b b'. map_of (i_replay_buffers c) agent = Some b
            \<and> add_transition (transition_of obs acts rews next_obs d dnm agent) b = Inr b'
            \<and> map_of (i_replay_buffers c') agent = Some b'"
  proof
    fix agent assume ag: "agent \<in> set (a # ids)"
    show "\<exists>b b'. map_of (i_replay_buffers c) agent = Some b
            \<and> add_transition (transition_of obs acts rews next_obs d dnm agent) b = Inr b'
            \<and> map_of (i_replay_buffers c') agent = Some b'"
    proof (cases "agent = a")
      case True
      with c'(6) d(2) have "map_of (i_replay_buffers c') a = Some b1" by (simp add: m1)
      with b(1) at True show ?thesis by blast
    next
      case False
      with ag have "agent \<in> set ids" by simp
      with c'(7) False show ?thesis by (auto simp: m1)
    qed
  qed
  ultimately show ?case by blast
qed

text \<open>
  C9.  One call of \<^verbatim>\<open>add_to_buffer\<close>, when every agent identity is a key of the four
  dictionaries and the stores' cursors are in range.  Individual variant (distinct agent
  identities): the store of every agent identity becomes the result of exactly one
  \<open>add\<close> of that agent's transition on its own store, and no other store changes.
  Shared variant: the single store becomes the result of adding the agents' transitions
  one after the other in the order of the agent identities.  Every transition of the call
  carries the same \<open>done\<close> and \<open>done_no_max\<close>.
\<close>

theorem add_to_buffer_one_per_agent:
  assumes "has_keys obs acts rews next_obs (i_agent_ids ci)"
    and "distinct (i_agent_ids ci)"
    and "buffers_ready (i_replay_buffers ci) (i_agent_ids ci)"
    and "has_keys obs acts rews next_obs (s_agent_ids cs)"
    and "idx (s_replay_buffer cs) < capacity (s_replay_buffer cs)"
  shows "(\<exists>ci'. i_add_to_buffer ci obs acts rews next_obs d dnm = Inr ci'
          \<and> i_agents ci' = i_agents ci \<and> i_agent_ids ci' = i_agent_ids ci
          \<and> (\<forall>agent \<in> set (i_agent_ids ci). \<exists>b b'.
                map_of (i_replay_buffers ci) agent = Some b
              \<and> add b (the (map_of obs agent)) (the (map_of acts agent)) (the (map_of rews agent))
                    (the (map_of next_obs agent)) d dnm = Inr b'
              \<and> map_of (i_replay_buffers ci') agent = Some b')
          \<and> (\<forall>agent. agent \<notin> set (i_agent_ids ci) \<longrightarrow>
                map_of (i_replay_buffers ci') agent = map_of (i_replay_buffers ci) agent))
       \<and> (\<exists>cs'. s_add_to_buffer cs obs acts rews next_obs d dnm = Inr cs'
          \<and> cs' = cs\<lparr>s_replay_buffer := s_replay_buffer cs'\<rparr>
          \<and> for_each add_transition
                (map (transition_of obs acts rews next_obs d dnm) (s_agent_ids cs))
                (s_replay_buffer cs) = Inr (s_replay_buffer cs'))"
proof -
  from for_each_i_add_one [OF assms(2) assms(1) assms(3), of d dnm] obtain ci' where
    i: "for_each (i_add_one obs acts rews next_obs d dnm) (i_agent_ids ci) ci = Inr ci'"
      "i_agent_ids ci' = i_agent_ids ci" "i_agents ci' = i_agents ci"
      "\<forall>agent. agent \<notin> set (i_agent_ids ci) \<longrightarrow>
            map_of (i_replay_buffers ci') agent = map_of (i_replay_buffers ci) agent"
      "\<forall>agent \<in> set (i_agent_ids ci). \<exists>b b'. map_of (i_replay_buffers ci) agent = Some b
            \<and> add_transition (transition_of obs acts rews next_obs d dnm agent) b = Inr b'
            \<and> map_of (i_replay_buffers ci') agent = Some b'"
    by blast
  have part1: "\<exists>ci'. i_add_to_buffer ci obs acts rews next_obs d dnm = Inr ci'
          \<and> i_agents ci' = i_agents ci \<and> i_agent_ids ci' = i_agent_ids ci
          \<and> (\<forall>agent \<in> set (i_agent_ids ci). \<exists>b b'.
                map_of (i_replay_buffers ci) agent = Some b
              \<and> add b (the (map_of obs agent)) (the (map_of acts agent)) (the (map_of rews agent))
                    (the (map_of next_obs agent)) d dnm = Inr b'
              \<and> map_of (i_replay_buffers ci') agent = Some b')
          \<and> (\<forall>agent. agent \<notin> set (i_agent_ids ci) \<longrightarrow>
                map_of (i_replay_buffers ci') agent = map_of (i_replay_buffers ci) agent)"
    apply (rule exI [of _ ci'])
    using i by (simp add: i_add_to_buffer_def add_transition_def transition_of_def)
  from for_each_add_transition_ok [OF assms(5),
      of "map (transition_of obs acts rews next_obs d dnm) (s_agent_ids cs)"]
  obtain b' where b': "for_each add_transition
                (map (transition_of obs acts rews next_obs d dnm) (s_agent_ids cs))
                (s_replay_buffer cs) = Inr b'"
    by blast
  have part2: "\<exists>cs'. s_add_to_buffer cs obs acts rews next_obs d dnm = Inr cs'
          \<and> cs' = cs\<lparr>s_replay_buffer := s_replay_buffer cs'\<rparr>
          \<and> for_each add_transition
                (map (transition_of obs acts rews next_obs d dnm) (s_agent_ids cs))
                (s_replay_buffer cs) = Inr (s_replay_buffer cs')"
    apply (rule exI [of _ "cs\<lparr>s_replay_buffer := b'\<rparr>"])
    by (simp add: s_add_to_buffer_def for_each_s_add_one [OF assms(4)] b' bnd_def)
  from part1 part2 show ?thesis by (rule conjI)
qed

theorem add_to_buffer_one_per_agent_witness:
  "has_keys [(''a'', 1::nat), (''b'', 2)] [(''a'', 3::nat), (''b'', 4)] [(''a'', 5::nat), (''b'', 6)]
      [(''a'', 7), (''b'', 8)] (i_agent_ids demo_individual)
   \<and> distinct (i_agent_ids demo_individual)
   \<and> buffers_ready (i_replay_buffers demo_individual) (i_agent_ids demo_individual)
   \<and> has_keys [(''a'', 1::nat), (''b'', 2)] [(''a'', 3::nat), (''b'', 4)] [(''a'', 5::nat), (''b'', 6)]
      [(''a'', 7), (''b'', 8)] (s_agent_ids demo_shared)
   \<and> idx (s_replay_buffer demo_shared) < capacity (s_replay_buffer demo_shared)
   \<and> (\<exists>ci'. i_add_to_buffer demo_individual [(''a'', 1), (''b'', 2)] [(''a'', 3), (''b'', 4)]
               [(''a'', 5), (''b'', 6)] [(''a'', 7), (''b'', 8)] False True = Inr ci'
         \<and> map_option (\<lambda>b. (obses b, idx b)) (map_of (i_replay_buffers ci') ''a'') = Some ([1, 0], 1)
         \<and> map_option (\<lambda>b. (obses b, idx b)) (map_of (i_replay_buffers ci') ''b'') = Some ([2, 0], 1))
   \<and> (\<exists>cs'. s_add_to_buffer demo_shared [(''a'', 1), (''b'', 2)] [(''a'', 3), (''b'', 4)]
               [(''a'', 5), (''b'', 6)] [(''a'', 7), (''b'', 8)] False True = Inr cs'
         \<and> obses (s_replay_buffer cs') = [1, 2, 0, 0]
         \<and> not_dones_no_max (s_replay_buffer cs') = [False, False, False, False]
         \<and> not_dones (s_replay_buffer cs') = [True, True, False, False]
         \<and> idx (s_replay_buffer cs') = 2)"
proof -
  have ids: "i_agent_ids demo_individual = [''a'', ''b'']" "s_agent_ids demo_shared = [''a'', ''b'']"
    by (simp_all add: demo_individual_def IndividualMultiAgent_init_def demo_shared_def
        SharedMultiAgent_init_def)
  have bufs: "i_replay_buffers demo_individual =
      [(''a'', ReplayBuffer_init 2 demo_mem), (''b'', ReplayBuffer_init 2 demo_mem)]"
    by (simp add: demo_individual_def IndividualMultiAgent_init_def)
  have sb: "s_replay_buffer demo_shared = ReplayBuffer_init 4 demo_mem"
    by (simp add: demo_shared_def SharedMultiAgent_init_def)
  have h1: "has_keys [(''a'', 1::nat), (''b'', 2)] [(''a'', 3::nat), (''b'', 4)] [(''a'', 5::nat), (''b'', 6)]
      [(''a'', 7), (''b'', 8)] (i_agent_ids demo_individual)"
    by (simp add: ids has_keys_def)
  have h2: "distinct (i_agent_ids demo_individual)" by (simp add: ids)
  have h3: "buffers_ready (i_replay_buffers demo_individual) (i_agent_ids demo_individual)"
    by (simp add: ids bufs buffers_ready_def ReplayBuffer_init_def)
  have h4: "has_keys [(''a'', 1::nat), (''b'', 2)] [(''a'', 3::nat), (''b'', 4)] [(''a'', 5::nat), (''b'', 6)]
      [(''a'', 7), (''b'', 8)] (s_agent_ids demo_shared)"
    by (simp add: ids has_keys_def)
  have h5: "idx (s_replay_buffer demo_shared) < capacity (s_replay_buffer demo_shared)"
    by (simp add: sb ReplayBuffer_init_def)
  note th = add_to_buffer_one_per_agent [OF h1 h2 h3 h4 h5, of False True]
  from th obtain ci' where
    i: "i_add_to_buffer demo_individual [(''a'', 1), (''b'', 2)] [(''a'', 3), (''b'', 4)]
               [(''a'', 5), (''b'', 6)] [(''a'', 7), (''b'', 8)] False True = Inr ci'"
      "\<forall>agent \<in> set (i_agent_ids demo_individual). \<exists>b b'.
                map_of (i_replay_buffers demo_individual) agent = Some b
              \<and> add b (the (map_of [(''a'', 1::nat), (''b'', 2)] agent)) (the (map_of [(''a'', 3::nat), (''b'', 4)] agent))
                    (the (map_of [(''a'', 5::nat), (''b'', 6)] agent))
                    (the (map_of [(''a'', 7), (''b'', 8)] agent)) False True = Inr b'
              \<and> map_of (i_replay_buffers ci') agent = Some b'"
    by blast
  from i(2) have ia: "map_option (\<lambda>b. (obses b, idx b)) (map_of (i_replay_buffers ci') ''a'') = Some ([1, 0], 1)"
    and ib: "map_option (\<lambda>b. (obses b, idx b)) (map_of (i_replay_buffers ci') ''b'') = Some ([2, 0], 1)"
    by (auto simp: ids bufs ReplayBuffer_init_def add_def demo_mem_def upt_rec)
  from th obtain cs' where
    s: "s_add_to_buffer demo_shared [(''a'', 1), (''b'', 2)] [(''a'', 3), (''b'', 4)]
               [(''a'', 5), (''b'', 6)] [(''a'', 7), (''b'', 8)] False True = Inr cs'"
      "for_each add_transition
                (map (transition_of [(''a'', 1::nat), (''b'', 2)] [(''a'', 3::nat), (''b'', 4)] [(''a'', 5::nat), (''b'', 6)]
                   [(''a'', 7), (''b'', 8)] False True) (s_agent_ids demo_shared))
                (s_replay_buffer demo_shared) = Inr (s_replay_buffer cs')"
    by blast
  have ev: "for_each add_transition
                (map (transition_of [(''a'', 1::nat), (''b'', 2)] [(''a'', 3::nat), (''b'', 4)] [(''a'', 5::nat), (''b'', 6)]
                   [(''a'', 7), (''b'', 8)] False True) (s_agent_ids demo_shared))
                (s_replay_buffer demo_shared) =
      Inr \<lparr> capacity = 4, obses = [1, 2, 0, 0], next_obses = [7, 8, 0, 0],
            actions = [3, 4, 0, 0], rewards = [5, 6, 0, 0],
            not_dones = [True, True, False, False],
            not_dones_no_max = [False, False, False, False], idx = 2, full = False \<rparr>"
    by (simp add: ids sb ReplayBuffer_init_def add_def demo_mem_def upt_rec transition_of_def
        add_transition_def)
  from s(2) have "s_replay_buffer cs' =
      \<lparr> capacity = 4, obses = [1, 2, 0, 0], next_obses = [7, 8, 0, 0],
            actions = [3, 4, 0, 0], rewards = [5, 6, 0, 0],
            not_dones = [True, True, False, False],
            not_dones_no_max = [False, False, False, False], idx = 2, full = False \<rparr>"
    unfolding ev by simp
  then have sv: "obses (s_replay_buffer cs') = [1, 2, 0, 0]"
      "not_dones_no_max (s_replay_buffer cs') = [False, False, False, False]"
      "not_dones (s_replay_buffer cs') = [True, True, False, False]"
      "idx (s_replay_buffer cs') = 2"
    by simp_all
  show ?thesis
    using h1 h2 h3 h4 h5 i(1) ia ib s(1) sv by blast
qed


section \<open>Loading checkpoints\<close>

lemma row_ok: "i < length xs \<Longrightarrow> row xs i = Inr (xs ! i)"
  by (simp add: row_def)

lemma replay_row_eq:
  assumes "has_rows data n" "i < n"
  shows "replay_row data i b = add_transition (saved_row data i) b"
  using assms
  by (simp add: replay_row_def has_rows_def row_ok bnd_def add_transition_def saved_row_def)














text \<open>
  Round trips on the two small controllers.  For 0, 1 and 2 calls of \<^verbatim>\<open>add_to_buffer\<close>
  (capacity 2 per agent) saving and loading into a fresh controller gives back stores
  equal to the saved ones, and the step.
\<close>

lemma roundtrip_within_capacity:
  "list_all (\<lambda>k.
      bnd (demo_insertions k demo_individual) (\<lambda>c.
        bnd (i_save_checkpoint c [] (int k)) (\<lambda>dir.
          bnd (i_load_checkpoint demo_individual dir (checkpoint_name (int k)) ''cpu'')
            (\<lambda>(c', s). Inr (i_replay_buffers c' = i_replay_buffers c, s)))) = Inr (True, int k)
    \<and> bnd (demo_shared_insertions k demo_shared) (\<lambda>c.
          bnd (s_load_checkpoint demo_shared (s_save_checkpoint c [] (int k))
                 (checkpoint_name (int k)) ''cpu'')
            (\<lambda>(c', s). Inr (s_replay_buffer c' = s_replay_buffer c, s))) = Inr (True, int k))
     [0, 1, 2]"
  by code_simp

text \<open>
  C1.  The round trip fails beyond the capacity.  After 7 calls of \<^verbatim>\<open>add_to_buffer\<close>
  (capacity 2 per agent, so \<open>k = C + 5\<close>) both controllers save their checkpoint at step
  7, and loading it into a fresh controller in train mode raises \<^verbatim>\<open>IndexError\<close>: no
  store is reconstructed.
\<close>

theorem roundtrip_beyond_capacity_fails:
  "\<not> isl (demo_saved 7) \<and> \<not> isl (demo_shared_saved 7)
   \<and> bnd (demo_saved 7) (\<lambda>dir. i_load_checkpoint demo_individual dir ''cp_7'' ''cpu'')
       = Inl IndexError
   \<and> bnd (demo_shared_saved 7) (\<lambda>dir. s_load_checkpoint demo_shared dir ''cp_7'' ''cpu'')
       = Inl IndexError"
  by code_simp


section \<open>Calls of the training loop\<close>

lemma updates_in_append [simp]: "updates_in (xs @ ys) = updates_in xs + updates_in ys"
  by (simp add: updates_in_def)

lemma acts_in_append [simp]: "acts_in (xs @ ys) = acts_in xs @ acts_in ys"
  by (simp add: acts_in_def)

lemma updates_in_simps [simp]:
  "updates_in [] = 0"
  "updates_in (c # cs) = (if is_update c then 1 else 0) + updates_in cs"
  by (simp_all add: updates_in_def)

lemma acts_in_simps [simp]:
  "acts_in [] = []"
  "acts_in (c # cs) = act_args c @ acts_in cs"
  by (simp_all add: acts_in_def)

lemma updates_in_map_Sample [simp]: "updates_in (map Sample ids) = 0"
  by (induction ids) simp_all

lemma acts_in_map_Sample [simp]: "acts_in (map Sample ids) = []"
  by (induction ids) simp_all

lemma updates_in_logs [simp]:
  "updates_in (concat (map (\<lambda>agent. [Log agent key1 n, Dump agent n' sv]) ids)) = 0"
  "updates_in (concat (map (\<lambda>agent. [Log agent ka n, Log agent kb n, Log agent kc n, Dump agent n' sv]) ids)) = 0"
  "updates_in (map (\<lambda>agent. Log agent key1 n) ids) = 0"
  by (induction ids) simp_all

lemma acts_in_logs [simp]:
  "acts_in (concat (map (\<lambda>agent. [Log agent key1 n, Dump agent n' sv]) ids)) = []"
  "acts_in (concat (map (\<lambda>agent. [Log agent ka n, Log agent kb n, Log agent kc n, Dump agent n' sv]) ids)) = []"
  "acts_in (map (\<lambda>agent. Log agent key1 n) ids) = []"
  by (induction ids) simp_all

lemma eval_only_append: "eval_only xs \<Longrightarrow> eval_only ys \<Longrightarrow> eval_only (xs @ ys)"
  by (auto simp: eval_only_def)

lemma eval_episode_calls:
  assumes "eval_episode k r obs = Some r'"
  shows "step r' = step r \<and> (\<exists>xs. calls r' = calls r @ xs \<and> eval_only xs)"
proof (rule eval_episode.raw_induct
    [where P = "\<lambda>k r obs r'. step r' = step r \<and> (\<exists>xs. calls r' = calls r @ xs \<and> eval_only xs)",
      OF _ assms], goal_cases)
  case (1 f k r obs r')
  obtain acts w1 where a: "ma_act k (world r) obs False (Some ''eval'') = (acts, w1)"
    by (metis surj_pair)
  obtain obs' rews dn w2 where e: "env_step k w1 acts = ((obs', rews, dn), w2)"
    by (metis prod_cases3 surj_pair)
  let ?r1 = "r\<lparr>world := w2,
       calls := calls r @ [Act obs False (Some ''eval''), EnvStep acts, VideoRecord]\<rparr>"
  have three: "eval_only [Act obs False (Some ''eval''), EnvStep acts, VideoRecord]"
    by (simp add: eval_only_def)
  show ?case
  proof (cases dn)
    case True
    with 1(2) a e have "r' = ?r1" by simp
    with three show ?thesis by auto
  next
    case False
    with 1(2) a e have "f k ?r1 obs' = Some r'" by simp
    from 1(1) [OF this] obtain xs where
      "step r' = step r" "calls r' = (calls r @ [Act obs False (Some ''eval''), EnvStep acts, VideoRecord]) @ xs"
      "eval_only xs"
      by auto
    with eval_only_append [OF three] show ?thesis by auto
  qed
qed

lemma eval_episodes_calls:
  assumes "eval_episodes k eps r = Some r'"
  shows "step r' = step r \<and> (\<exists>xs. calls r' = calls r @ xs \<and> eval_only xs)"
  using assms
proof (induction eps arbitrary: r)
  case Nil
  then show ?case by (simp add: eval_only_def)
next
  case (Cons episode rest)
  obtain obs w1 where a: "env_reset k (world r) = (obs, w1)" by (metis surj_pair)
  let ?r1 = "r\<lparr>world := ma_reset k w1, calls := calls r @ [EnvReset, Reset, VideoInit (episode = 0)]\<rparr>"
  from Cons.prems a obtain r2 where r2: "eval_episode k ?r1 obs = Some r2"
    and rest: "eval_episodes k rest (r2\<lparr>calls := calls r2 @ [VideoSave (step r2)]\<rparr>) = Some r'"
    by (auto split: option.splits)
  from eval_episode_calls [OF r2] obtain xs where
    xs: "step r2 = step r" "calls r2 = (calls r @ [EnvReset, Reset, VideoInit (episode = 0)]) @ xs" "eval_only xs"
    by auto
  from Cons.IH [OF rest] obtain ys where
    ys: "step r' = step r2" "calls r' = (calls r2 @ [VideoSave (step r2)]) @ ys" "eval_only ys"
    by auto
  have "eval_only ([EnvReset, Reset, VideoInit (episode = 0)] @ xs @ [VideoSave (step r2)] @ ys)"
    using xs(3) ys(3) by (auto simp: eval_only_def)
  moreover have "calls r' = calls r @ ([EnvReset, Reset, VideoInit (episode = 0)] @ xs @ [VideoSave (step r2)] @ ys)"
    using xs(2) ys(2) by simp
  ultimately show ?case using xs(1) ys(1) by metis
qed

lemma evaluate_calls:
  assumes "evaluate k cfg r = Some (Inr r')"
  shows "step r' = step r \<and> (\<exists>xs. calls r' = calls r @ xs \<and> eval_only xs)"
proof -
  from assms obtain r1 where r1: "eval_episodes k [0..<nat (cfg_num_eval_episodes cfg)] r = Some r1"
    and r': "r' = r1\<lparr>calls := calls r1 @
                       concat (map (\<lambda>agent. [Log agent ''eval/episode_reward'' (step r1),
                                              Dump agent (step r1) None]) (env_agents k))\<rparr>"
    by (auto simp: evaluate_def split: option.splits if_splits)
  from eval_episodes_calls [OF r1] obtain xs where
    xs: "step r1 = step r" "calls r1 = calls r @ xs" "eval_only xs"
    by auto
  have "eval_only (xs @ concat (map (\<lambda>agent. [Log agent ''eval/episode_reward'' (step r1),
                                              Dump agent (step r1) None]) (env_agents k)))"
    using xs(3) by (simp add: eval_only_def)
  with xs r' show ?thesis by auto
qed

lemma evaluate_error:
  assumes "evaluate k cfg r = Some (Inl e)"
  shows "e = ZeroDivisionError"
  using assms by (auto simp: evaluate_def split: option.splits if_splits)

lemma train_step_calls:
  fixes k :: "('w, 'ob, 'a, 'rw) collab"
  shows "\<exists>r1 obs1 d rews dnm.
      train_step k cfg r obs es = (r1, obs1, es + 1, d)
    \<and> step r1 = step r + 1
    \<and> calls r1 = calls r
        @ (if step r < cfg_num_seed_steps cfg then map Sample (env_agents k)
           else [Act obs True (Some ''eval''), Update (step r)])
        @ [EnvStep (if step r < cfg_num_seed_steps cfg then fst (sample_actions k (world r))
                    else fst (ma_act k (world r) obs True (Some ''eval''))),
           AddToBuffer obs
             (if step r < cfg_num_seed_steps cfg then fst (sample_actions k (world r))
              else fst (ma_act k (world r) obs True (Some ''eval'')))
             rews obs1 d dnm]"
proof -
  obtain acts1 w1 and calls1 :: "('ob, 'a, 'rw) call list" where a: "(if step r < cfg_num_seed_steps cfg
            then (case sample_actions k (world r) of (acts, w) \<Rightarrow>
                    (acts, w, map Sample (env_agents k)))
            else (case ma_act k (world r) obs True (Some ''eval'') of (acts, w) \<Rightarrow>
                    (acts, w, [Act obs True (Some ''eval'')]))) = (acts1, w1, calls1)"
    by (metis prod_cases3)
  obtain w2 and calls2 :: "('ob, 'a, 'rw) call list" where b: "(if step r \<ge> cfg_num_seed_steps cfg
               then (ma_update k w1 (step r), [Update (step r)])
               else (w1, [])) = (w2, calls2)"
    by (metis surj_pair)
  obtain next_obs rews done_env w3 where c: "env_step k w2 acts1 = ((next_obs, rews, done_env), w3)"
    by (metis prod_cases3 surj_pair)
  note u = train_step_unfold [OF a b c, where episode_step = es]
  have acts1: "acts1 = (if step r < cfg_num_seed_steps cfg then fst (sample_actions k (world r))
                    else fst (ma_act k (world r) obs True (Some ''eval'')))"
    using a by (auto split: if_splits prod.splits)
  have cs: "calls1 @ calls2 = (if step r < cfg_num_seed_steps cfg then map Sample (env_agents k)
           else [Act obs True (Some ''eval''), Update (step r)])"
    using a b by (auto split: if_splits prod.splits)
  show ?thesis
    unfolding u acts1 [symmetric] cs [symmetric] by auto
qed

lemma log_episode_calls:
  "step (log_episode k cfg r) = step r \<and> world (log_episode k cfg r) = world r
    \<and> (\<exists>xs. calls (log_episode k cfg r) = calls r @ xs \<and> eval_only xs)"
  by (simp add: log_episode_def eval_only_def)

lemma periodic_evaluation_calls:
  assumes "periodic_evaluation k cfg r = Some (Inr r')"
  shows "step r' = step r \<and> (\<exists>xs. calls r' = calls r @ xs \<and> eval_only xs)"
proof (cases "step r > 0 \<and> cfg_eval_frequency cfg \<noteq> 0 \<and> step r mod cfg_eval_frequency cfg = 0")
  case True
  with assms have "evaluate k cfg
      (r\<lparr>calls := calls r @ map (\<lambda>agent. Log agent ''eval/episode'' (step r)) (env_agents k)\<rparr>)
        = Some (Inr r')"
    by (simp add: periodic_evaluation_def)
  from evaluate_calls [OF this] obtain xs where
    xs: "step r' = step r"
      "calls r' = (calls r @ map (\<lambda>agent. Log agent ''eval/episode'' (step r)) (env_agents k)) @ xs"
      "eval_only xs"
    by auto
  have "eval_only (map (\<lambda>agent. Log agent ''eval/episode'' (step r)) (env_agents k) @ xs)"
    using xs(3) by (simp add: eval_only_def)
  with xs show ?thesis by auto
next
  case False
  with assms have "r' = r" by (auto simp: periodic_evaluation_def split: if_splits)
  then show ?thesis by (simp add: eval_only_def)
qed

lemma periodic_evaluation_error:
  assumes "periodic_evaluation k cfg r = Some (Inl e)"
  shows "e = ZeroDivisionError"
  using assms by (auto simp: periodic_evaluation_def split: if_splits dest: evaluate_error)

lemma episode_end_calls:
  assumes "episode_end k cfg r = Some (Inr (r', obs', es'))"
  shows "step r' = step r \<and> es' = 0 \<and> (\<exists>xs. calls r' = calls r @ xs \<and> eval_only xs)"
proof -
  obtain r2 where pe: "periodic_evaluation k cfg (log_episode k cfg r) = Some (Inr r2)"
  proof (cases "periodic_evaluation k cfg (log_episode k cfg r)")
    case None
    with assms show ?thesis by (simp add: episode_end_def)
  next
    case (Some x)
    with assms that show ?thesis by (cases x) (simp_all add: episode_end_def)
  qed
  from log_episode_calls [of k cfg r] obtain xs where
    xs: "step (log_episode k cfg r) = step r" "calls (log_episode k cfg r) = calls r @ xs" "eval_only xs"
    by auto
  from periodic_evaluation_calls [OF pe] obtain ys where
    ys: "step r2 = step (log_episode k cfg r)" "calls r2 = calls (log_episode k cfg r) @ ys" "eval_only ys"
    by auto
  from assms have f: "step r' = step r2" "es' = 0" "calls r' = calls r2 @ [EnvReset, Reset]"
    by (auto simp: episode_end_def pe split: prod.splits)
  have "eval_only (xs @ ys @ [EnvReset, Reset])"
    using xs(3) ys(3) by (simp add: eval_only_def)
  moreover have "calls r' = calls r @ (xs @ ys @ [EnvReset, Reset])"
    using f(3) ys(2) xs(2) by simp
  ultimately show ?thesis using f xs(1) ys(1) by metis
qed

lemma episode_end_error:
  assumes "episode_end k cfg r = Some (Inl e)"
  shows "e = ZeroDivisionError"
  using assms
  by (auto simp: episode_end_def split: option.splits sum.splits prod.splits
      dest: periodic_evaluation_error)

lemma episode_end_returns:
  assumes "\<And>r. evaluate k cfg r \<noteq> None"
  shows "episode_end k cfg r \<noteq> None"
proof -
  have "periodic_evaluation k cfg (log_episode k cfg r) \<noteq> None"
    using assms by (simp add: periodic_evaluation_def)
  then show ?thesis
    by (auto simp: episode_end_def split: option.splits sum.splits prod.splits)
qed

lemma train_iter_calls:
  assumes "train_iter k cfg r obs es = Some (Inr (r', obs', es'))"
  shows "step r' = step r + 1
    \<and> (\<exists>xs zs. calls r' = calls r @ xs
          \<and> updates_in xs = (if step r < cfg_num_seed_steps cfg then 0 else 1)
          \<and> acts_in xs = (if step r < cfg_num_seed_steps cfg then [] else [(True, Some ''eval'')]) @ zs
          \<and> set zs \<subseteq> {(False, Some ''eval'')})"
proof -
  from train_step_calls [of k cfg r obs es] obtain r1 obs1 d rews dnm where
    ts: "train_step k cfg r obs es = (r1, obs1, es + 1, d)"
    and st: "step r1 = step r + 1"
    and cs: "calls r1 = calls r
        @ (if step r < cfg_num_seed_steps cfg then map Sample (env_agents k)
           else [Act obs True (Some ''eval''), Update (step r)])
        @ [EnvStep (if step r < cfg_num_seed_steps cfg then fst (sample_actions k (world r))
                    else fst (ma_act k (world r) obs True (Some ''eval''))),
           AddToBuffer obs
             (if step r < cfg_num_seed_steps cfg then fst (sample_actions k (world r))
              else fst (ma_act k (world r) obs True (Some ''eval'')))
             rews obs1 d dnm]"
    by blast
  define ys where "ys = (if step r < cfg_num_seed_steps cfg then map Sample (env_agents k)
           else [Act obs True (Some ''eval''), Update (step r)])
        @ [EnvStep (if step r < cfg_num_seed_steps cfg then fst (sample_actions k (world r))
                    else fst (ma_act k (world r) obs True (Some ''eval''))),
           AddToBuffer obs
             (if step r < cfg_num_seed_steps cfg then fst (sample_actions k (world r))
              else fst (ma_act k (world r) obs True (Some ''eval'')))
             rews obs1 d dnm]"
  have cs': "calls r1 = calls r @ ys" by (simp add: cs ys_def)
  have u: "updates_in ys = (if step r < cfg_num_seed_steps cfg then 0 else 1)"
    and a: "acts_in ys = (if step r < cfg_num_seed_steps cfg then [] else [(True, Some ''eval'')])"
    by (simp_all add: ys_def)
  show ?thesis
  proof (cases "d \<noteq> 0")
    case True
    with assms ts have "episode_end k cfg r1 = Some (Inr (r', obs', es'))"
      by (simp add: train_iter_def)
    from episode_end_calls [OF this] obtain xs where
      xs: "step r' = step r1" "calls r' = calls r1 @ xs" "eval_only xs"
      by auto
    have "calls r' = calls r @ (ys @ xs)" using xs(2) cs' by simp
    moreover have "updates_in (ys @ xs) = (if step r < cfg_num_seed_steps cfg then 0 else 1)"
      using u xs(3) by (simp add: eval_only_def)
    moreover have "acts_in (ys @ xs)
        = (if step r < cfg_num_seed_steps cfg then [] else [(True, Some ''eval'')]) @ acts_in xs"
      using a by simp
    moreover have "set (acts_in xs) \<subseteq> {(False, Some ''eval'')}"
      using xs(3) by (simp add: eval_only_def)
    ultimately show ?thesis using xs(1) st by metis
  next
    case False
    with assms ts have "r' = r1" by (simp add: train_iter_def)
    moreover have "acts_in ys = (if step r < cfg_num_seed_steps cfg then [] else [(True, Some ''eval'')]) @ []"
      using a by simp
    moreover have "set [] \<subseteq> {(False, Some ''eval'')}" by simp
    ultimately show ?thesis using st cs' u by metis
  qed
qed

lemma train_loop_calls:
  assumes "train_loop k cfg r obs es = Some (Inr (r', obs', es'))"
  shows "step r \<le> step r'
    \<and> (\<exists>xs. calls r' = calls r @ xs \<and> snd ` set (acts_in xs) \<subseteq> {Some ''eval''})"
proof -
  have "\<forall>r' obs' es'. Inr (r', obs', es') = y \<longrightarrow> step r \<le> step r'
      \<and> (\<exists>xs. calls r' = calls r @ xs \<and> snd ` set (acts_in xs) \<subseteq> {Some ''eval''})"
    if "train_loop k cfg r obs es = Some y" for y
  proof (rule train_loop.raw_induct
      [where P = "\<lambda>k cfg r obs es y. \<forall>r' obs' es'. Inr (r', obs', es') = y \<longrightarrow> step r \<le> step r'
        \<and> (\<exists>xs. calls r' = calls r @ xs \<and> snd ` set (acts_in xs) \<subseteq> {Some ''eval''})",
        OF _ that], goal_cases)
    case (1 f k cfg r obs es y)
    show ?case
    proof (intro allI impI)
      fix r' obs' es'
      assume y: "Inr (r', obs', es') = y"
      show "step r \<le> step r'
        \<and> (\<exists>xs. calls r' = calls r @ xs \<and> snd ` set (acts_in xs) \<subseteq> {Some ''eval''})"
      proof (cases "step r < cfg_num_train_steps cfg")
        case False
        with 1(2) y have "r' = r" by auto
        then show ?thesis by simp
      next
        case True
        with 1(2) y obtain r1 obs1 es1 where
          it: "train_iter k cfg r obs es = Some (Inr (r1, obs1, es1))"
          and rec: "f k cfg r1 obs1 es1 = Some y"
          by (auto split: option.splits sum.splits)
        from train_iter_calls [OF it] obtain xs zs where
          xs: "step r1 = step r + 1" "calls r1 = calls r @ xs"
            "acts_in xs = (if step r < cfg_num_seed_steps cfg then [] else [(True, Some ''eval'')]) @ zs"
            "set zs \<subseteq> {(False, Some ''eval'')}"
          by blast
        from 1(1) [OF rec] y obtain ys where
          ys: "step r1 \<le> step r'" "calls r' = calls r1 @ ys"
            "snd ` set (acts_in ys) \<subseteq> {Some ''eval''}"
          by blast
        have "snd ` set (acts_in xs) \<subseteq> {Some ''eval''}"
          using xs(3,4) by (auto split: if_splits)
        with ys(3) have "snd ` set (acts_in (xs @ ys)) \<subseteq> {Some ''eval''}"
          by auto
        moreover have "calls r' = calls r @ (xs @ ys)" using xs(2) ys(2) by simp
        moreover have "step r \<le> step r'" using xs(1) ys(1) by simp
        ultimately show ?thesis by blast
      qed
    qed
  qed
  from this [OF assms] show ?thesis by blast
qed

lemma train_calls:
  assumes "train k cfg r = Some (Inr r')"
  shows "\<exists>xs. calls r' = calls r @ xs \<and> snd ` set (acts_in xs) \<subseteq> {Some ''eval''}"
proof -
  obtain obs0 w1 where er: "env_reset k (world r) = (obs0, w1)" by (metis surj_pair)
  let ?r0 = "r\<lparr>world := ma_reset k w1, calls := calls r @ [EnvReset, Reset]\<rparr>"
  from assms have h: "env_horizon k \<noteq> 0" by (auto simp: train_def split: if_splits)
  obtain r1 obs1 es1 where tl: "train_loop k cfg ?r0 obs0 0 = Some (Inr (r1, obs1, es1))"
    and r': "r' = (if cfg_save_checkpoint cfg
                        then r1\<lparr> world := ma_save_checkpoint k (world r1) (step r1),
                                calls := calls r1 @ [SaveCheckpoint (step r1)] \<rparr>
                        else r1)"
  proof (cases "train_loop k cfg ?r0 obs0 0")
    case None
    with assms h er show ?thesis by (simp add: train_def)
  next
    case (Some y)
    show ?thesis
    proof (cases y)
      case (Inl e)
      with Some assms h er show ?thesis by (simp add: train_def)
    next
      case (Inr t)
      obtain r1 obs1 es1 where t: "t = (r1, obs1, es1)" by (cases t) auto
      with Inr Some assms h er that show ?thesis by (simp add: train_def)
    qed
  qed
  from train_loop_calls [OF tl] obtain xs where
    xs: "calls r1 = (calls r @ [EnvReset, Reset]) @ xs" "snd ` set (acts_in xs) \<subseteq> {Some ''eval''}"
    by auto
  show ?thesis
  proof (cases "cfg_save_checkpoint cfg")
    case True
    with r' xs(1) have "calls r' = calls r @ ([EnvReset, Reset] @ xs @ [SaveCheckpoint (step r1)])"
      by simp
    moreover have "snd ` set (acts_in ([EnvReset, Reset] @ xs @ [SaveCheckpoint (step r1)])) \<subseteq> {Some ''eval''}"
      using xs(2) by simp
    ultimately show ?thesis by blast
  next
    case False
    with r' xs(1) have "calls r' = calls r @ ([EnvReset, Reset] @ xs)" by simp
    moreover have "snd ` set (acts_in ([EnvReset, Reset] @ xs)) \<subseteq> {Some ''eval''}"
      using xs(2) by simp
    ultimately show ?thesis by blast
  qed
qed

text \<open>
  C10.  In a training-loop step at or after the seed-step count the first call is the
  controller's \<^verbatim>\<open>act\<close> with \<^verbatim>\<open>sample=True\<close> and \<^verbatim>\<open>mode="eval"\<close>, and the actions it
  returns are the ones handed to the environment and to \<^verbatim>\<open>add_to_buffer\<close>.  Whenever
  the loop, or the whole of \<^verbatim>\<open>train\<close>, returns, every \<^verbatim>\<open>act\<close> call it has made,
  those of the periodic evaluation included, carries \<^verbatim>\<open>mode="eval"\<close>: none carries
  \<^verbatim>\<open>mode="train"\<close>.
\<close>

theorem acts_only_in_eval_mode:
  fixes k :: "('w, 'ob, 'a, 'rw) collab"
  shows "(cfg_num_seed_steps cfg \<le> step r \<longrightarrow>
           (\<exists>r1 obs1 d rews dnm.
              train_step k cfg r obs es = (r1, obs1, es + 1, d)
            \<and> calls r1 = calls r @
                 [Act obs True (Some ''eval''), Update (step r),
                  EnvStep (fst (ma_act k (world r) obs True (Some ''eval''))),
                  AddToBuffer obs (fst (ma_act k (world r) obs True (Some ''eval'')))
                    rews obs1 d dnm]))
       \<and> (train_loop k cfg r obs es = Some (Inr (r', obs', es')) \<longrightarrow>
           (\<exists>xs. calls r' = calls r @ xs \<and> snd ` set (acts_in xs) \<subseteq> {Some ''eval''}))
       \<and> (train k cfg r = Some (Inr r'') \<longrightarrow>
           (\<exists>xs. calls r'' = calls r @ xs \<and> snd ` set (acts_in xs) \<subseteq> {Some ''eval''}))"
proof (intro conjI impI)
  assume s: "cfg_num_seed_steps cfg \<le> step r"
  from train_step_calls [of k cfg r obs es] s
  show "\<exists>r1 obs1 d rews dnm.
              train_step k cfg r obs es = (r1, obs1, es + 1, d)
            \<and> calls r1 = calls r @
                 [Act obs True (Some ''eval''), Update (step r),
                  EnvStep (fst (ma_act k (world r) obs True (Some ''eval''))),
                  AddToBuffer obs (fst (ma_act k (world r) obs True (Some ''eval'')))
                    rews obs1 d dnm]"
    by (auto simp: not_less [symmetric])
next
  assume "train_loop k cfg r obs es = Some (Inr (r', obs', es'))"
  from train_loop_calls [OF this]
  show "\<exists>xs. calls r' = calls r @ xs \<and> snd ` set (acts_in xs) \<subseteq> {Some ''eval''}"
    by blast
next
  assume "train k cfg r = Some (Inr r'')"
  from train_calls [OF this]
  show "\<exists>xs. calls r'' = calls r @ xs \<and> snd ` set (acts_in xs) \<subseteq> {Some ''eval''}" .
qed

theorem acts_only_in_eval_mode_witness:
  "cfg_num_seed_steps demo_cfg \<le> step (demo_run\<lparr>world := 1, step := 3\<rparr>)
   \<and> train_loop demo_collab demo_cfg demo_run 0 0
        = Some (Inr (\<lparr>world = 0, step = 4, calls = demo_trace\<rparr>, 0, 0))
   \<and> train demo_collab demo_cfg demo_run
        = Some (Inr \<lparr>world = 0, step = 4,
                     calls = [EnvReset, Reset] @ demo_trace @ [SaveCheckpoint 4]\<rparr>)
   \<and> (\<exists>r1 obs1 d rews dnm.
         train_step demo_collab demo_cfg (demo_run\<lparr>world := 1, step := 3\<rparr>) 1 1
           = (r1, obs1, 1 + 1, d)
       \<and> calls r1 = [Act 1 True (Some ''eval''), Update 3, EnvStep [(''a'', 1), (''b'', 1)],
                      AddToBuffer 1 [(''a'', 1), (''b'', 1)] rews obs1 d dnm])
   \<and> snd ` set (acts_in demo_trace) \<subseteq> {Some ''eval''}
   \<and> acts_in demo_trace
        = [(False, Some ''eval''), (False, Some ''eval''), (True, Some ''eval''),
           (True, Some ''eval''), (False, Some ''eval''), (False, Some ''eval'')]"
proof -
  have h1: "cfg_num_seed_steps demo_cfg \<le> step (demo_run\<lparr>world := 1, step := 3\<rparr>)"
    by (simp add: demo_cfg_def demo_run_def)
  have h2: "train_loop demo_collab demo_cfg demo_run 0 0
        = Some (Inr (\<lparr>world = 0, step = 4, calls = demo_trace\<rparr>, 0, 0))"
    by code_simp
  have h3: "train demo_collab demo_cfg demo_run
        = Some (Inr \<lparr>world = 0, step = 4,
                     calls = [EnvReset, Reset] @ demo_trace @ [SaveCheckpoint 4]\<rparr>)"
    by code_simp
  note th = acts_only_in_eval_mode [of demo_cfg "demo_run\<lparr>world := 1, step := 3\<rparr>" demo_collab 1 1]
  from th h1 have c1: "\<exists>r1 obs1 d rews dnm.
         train_step demo_collab demo_cfg (demo_run\<lparr>world := 1, step := 3\<rparr>) 1 1
           = (r1, obs1, 1 + 1, d)
       \<and> calls r1 = [Act 1 True (Some ''eval''), Update 3, EnvStep [(''a'', 1), (''b'', 1)],
                      AddToBuffer 1 [(''a'', 1), (''b'', 1)] rews obs1 d dnm]"
    by (simp add: demo_collab_def demo_run_def)
  note th2 = acts_only_in_eval_mode [of demo_cfg demo_run demo_collab 0 0
      "\<lparr>world = 0, step = 4, calls = demo_trace\<rparr>" 0 0]
  from th2 [THEN conjunct2, THEN conjunct1, THEN mp, OF h2]
  obtain xs where "calls \<lparr>world = 0::nat, step = 4, calls = demo_trace\<rparr> = calls demo_run @ xs"
    "snd ` set (acts_in xs) \<subseteq> {Some ''eval''}"
    by blast
  then have c2: "snd ` set (acts_in demo_trace) \<subseteq> {Some ''eval''}"
    by (simp add: demo_run_def)
  have c3: "acts_in demo_trace
        = [(False, Some ''eval''), (False, Some ''eval''), (True, Some ''eval''),
           (True, Some ''eval''), (False, Some ''eval''), (False, Some ''eval'')]"
    by code_simp
  show ?thesis
    by (intro conjI h1 h2 h3 c1 c2 c3)
qed


end
